theory Spec2Isabelle
  imports Complex_Main "HOL-Library.Log_Nat"
begin

section \<open>JavaScript values\<close>

text \<open>
  The search function is a Deno handler written in TypeScript. A number of JavaScript is
  an IEEE double: it is modelled by its value, a rational, and every arithmetic
  operation of the handler rounds its exact result to the nearest double (\<open>fl\<close>).
  \<open>NaN\<close> is kept, because \<open>Math.min\<close>, \<open>Math.max\<close>, \<open>parseFloat\<close> and the truthiness tests
  of the handler produce or test it. The infinities (overflow) and the sign of zero are
  outside the model.
\<close>

datatype jsnum = Num rat | NaN

subsection \<open>Rounding to a double\<close>

text \<open>The nearest integer, a tie going to the even one.\<close>

definition round_even :: "rat \<Rightarrow> int" where
  "round_even y =
     (let f = \<lfloor>y\<rfloor>; d = y - of_int f
      in if d < 1 / 2 then f else if 1 / 2 < d then f + 1 else if even f then f else f + 1)"

text \<open>
  The binary exponent of a number other than 0: the \<open>e\<close> with \<open>2^e \<le> |x| < 2^(e+1)\<close>,
  found from the bit lengths of numerator and denominator.
\<close>

definition binade :: "rat \<Rightarrow> int" where
  "binade x =
     (let (p, q) = quotient_of x; d = bitlen \<bar>p\<bar> - bitlen q
      in if power_int 2 d \<le> \<bar>x\<bar> then d else d - 1)"

text \<open>
  Round to nearest, ties to even, with a significand of 53 bits; below \<open>2^-1022\<close> the
  doubles are the multiples of \<open>2^-1074\<close>. There is no overflow to \<open>Infinity\<close>: a number
  beyond the largest double is rounded as if the exponent had no bound. The scores stay
  below 101.
\<close>

definition fl :: "rat \<Rightarrow> rat" where
  "fl x =
     (if x = 0 then 0
      else (let e = max (binade x) (- 1022); q = power_int 2 (e - 52)
            in of_int (round_even (x / q)) * q))"

text \<open>The unit roundoff of double arithmetic, \<open>2^-53\<close>.\<close>

definition unit_roundoff :: rat where
  "unit_roundoff = 1 / 2 ^ 53"

text \<open>A value as \<open>JSON.parse\<close> returns it, with \<open>undefined\<close> for a property that is not there.\<close>

datatype jsval =
    JUndefined
  | JNull
  | JBool bool
  | JNumber jsnum
  | JString string
  | JArray "jsval list"
  | JObject "(string \<times> jsval) list"

text \<open>What an awaited call does: it throws (with a message) or returns.\<close>

datatype 'a outcome = Throws string | Returns 'a

section \<open>Data of the handler\<close>

record coordinates =
  lat :: rat
  lng :: rat

record review =
  review_text :: "string option"
  review_rating :: "rat option"
  review_time :: "int option"

text \<open>Interface \<open>PlaceDetails\<close>: the \<open>result\<close> of a place-details response.\<close>

record PlaceDetails =
  place_id :: string
  name :: string
  rating :: "rat option"
  price_level :: "rat option"
  formatted_address :: string
  geometry :: "coordinates option"
  photos :: "string list option"
  formatted_phone_number :: "string option"
  website :: "string option"
  types :: "string list"
  reviews :: "review list option"

text \<open>
  \<open>restaurantData\<close>: the object built from the details (lines 162-175), which is also the
  row of table \<open>restaurants\<close> that the cache returns.
\<close>

record restaurantData =
  rd_place_id :: string
  rd_name :: string
  rd_rating :: "rat option"
  rd_price_level :: "rat option"
  rd_formatted_address :: string
  rd_location :: coordinates
  rd_photos :: "string list"
  rd_phone_number :: "string option"
  rd_website :: "string option"
  rd_types :: "string list"
  rd_reviews :: "review list option"
  rd_cached_at :: int

text \<open>
  \<open>aiSummary\<close>: the object literal of lines 284-294, also the part of a row of table
  \<open>restaurant_ai_summaries\<close> that the handler reads.
\<close>

record aiSummary =
  s_place_id :: jsval
  rank_score :: jsnum
  short_summary :: jsval
  pros :: "jsval list"
  cons :: "jsval list"
  top_positive_quote :: jsval
  top_negative_quote :: jsval
  confidence :: jsnum
  generated_at :: int

text \<open>The \<open>ai_summary\<close> property of a returned restaurant (lines 323-331).\<close>

record ai_summary =
  v_rank_score :: jsnum
  v_short_summary :: jsval
  v_pros :: "jsval list"
  v_cons :: "jsval list"
  v_top_positive_quote :: jsval
  v_top_negative_quote :: jsval
  v_confidence :: jsnum

text \<open>The object a candidate's promise resolves to (lines 311-332).\<close>

record restaurant =
  r_id :: string
  r_place_id :: string
  r_name :: string
  r_rating :: "rat option"
  r_price_level :: "rat option"
  r_formatted_address :: string
  r_location :: coordinates
  r_photos :: "string list"
  r_phone_number :: "string option"
  r_website :: "string option"
  r_types :: "string list"
  r_ai_summary :: "ai_summary option"

text \<open>\<open>{...restaurant, total_score}\<close> (lines 363-366).\<close>

record ranked =
  entry :: restaurant
  total_score :: int

section \<open>Requests, responses and the services the handler calls\<close>

text \<open>Interface \<open>SearchParams\<close>: the JSON body of the request; a \<open>None\<close> takes the default.\<close>

record SearchParams =
  p_location :: string
  p_radius :: "rat option"
  p_max_price :: "rat option"
  p_cuisine :: "string option"
  p_veg_only :: "bool option"
  p_jain_food :: "bool option"
  p_menu :: "string list option"

record request =
  req_method :: string
  json :: "SearchParams outcome"

record geocode_result =
  gr_formatted_address :: string
  gr_location :: coordinates

record geocodeData =
  gc_status :: string
  gc_results :: "geocode_result list"

text \<open>
  An element of \<open>placesData.results\<close>; the handler reads its \<open>place_id\<close> and \<open>name\<close>. The
  list is untyped in the handler (\<open>place: any\<close>): an element that is \<open>null\<close> is \<open>None\<close>.
\<close>

record place =
  pl_place_id :: string
  pl_name :: string

record placesData =
  ps_status :: string
  ps_results :: "place option list"

record detailsData =
  dd_status :: string
  dd_result :: "PlaceDetails option"

text \<open>
  What the generator call leaves to work with: no candidate in the reply, a text that
  \<open>JSON.parse\<close> rejects, or the parsed value. Stripping the code fences (line 274) happens
  before \<open>JSON.parse\<close> and is part of this outcome.
\<close>

datatype geminiData = NoCandidate | Unparsable | Parsed jsval

text \<open>The four places where a candidate reads the clock (lines 134, 174, 190, 293).\<close>

datatype clock_point =
    RestaurantCheck string
  | RestaurantWrite string
  | SummaryCheck string
  | SummaryWrite string

text \<open>
  The outside of the handler: the environment variables, the HTTP services, the two
  tables and the clock. A table is read as the row stored under a place id, whatever its
  age; the handler's own query adds the 24-hour filter. The generator is asked with a
  prompt built from the restaurant, the review texts and the filters; its reply is
  given here by the place id and the review texts. \<open>toNumber_other\<close> is the number that
  JavaScript's \<open>ToNumber\<close> makes of a string, an array or an object.
\<close>

record world =
  GOOGLE_PLACES_API_KEY :: "string option"
  GEMINI_API_KEY :: "string option"
  geocode :: "string \<Rightarrow> geocodeData outcome"
  nearbysearch :: "coordinates \<Rightarrow> rat \<Rightarrow> rat option \<Rightarrow> placesData outcome"
  restaurants_row :: "string \<Rightarrow> restaurantData option outcome"
  details :: "string \<Rightarrow> detailsData outcome"
  restaurants_upsert :: "restaurantData \<Rightarrow> unit outcome"
  summaries_row :: "string \<Rightarrow> aiSummary option outcome"
  generateContent :: "string \<Rightarrow> string list \<Rightarrow> geminiData outcome"
  summaries_upsert :: "aiSummary \<Rightarrow> unit outcome"
  clock :: "clock_point \<Rightarrow> int"
  toNumber_other :: "jsval \<Rightarrow> jsnum"

text \<open>
  The calls the handler makes, in the order of one candidate after the other (the
  candidates run concurrently; each candidate's own calls are in this order).
\<close>

datatype event =
    Geocode string
  | NearbySearch coordinates rat "rat option"
  | SelectRestaurant string
  | FetchDetails string
  | UpsertRestaurant restaurantData
  | SelectSummary string
  | Summarize string "string list"
  | UpsertSummary aiSummary

text \<open>
  What the \<open>try\<close> block of the handler throws. The handler throws \<open>Error\<close> objects that
  differ in their message only; the constructors carry the names that the specification
  gives to the kinds, and \<open>message\<close> is the text of the code.
\<close>

datatype failure =
    MissingKeys
  | InvalidCoordinates
  | LocationNotFound string
  | GeocodingError string
  | PlacesSearchError string
  | Exception string

definition quoted :: "string \<Rightarrow> string" where
  "quoted s = CHR 0x22 # s @ [CHR 0x22]"

fun message :: "failure \<Rightarrow> string" where
  "message MissingKeys = ''Missing required API keys''"
| "message InvalidCoordinates = ''Invalid coordinate format''"
| "message (LocationNotFound loc) =
     ''Unable to find location '' @ quoted loc
       @ ''. Please try a more specific address or city name.''"
| "message (GeocodingError st) = ''Geocoding failed: '' @ st"
| "message (PlacesSearchError st) = ''Places API error: '' @ st"
| "message (Exception m) = m"

record response_body =
  error :: "string option"
  restaurants :: "ranked list"
  search_location :: "coordinates option"
  total_found :: nat

record response =
  status :: nat
  body :: "response_body option"

section \<open>Step 1: the location (lines 80-106)\<close>

definition isDigit :: "char \<Rightarrow> bool" where
  "isDigit c = (c \<in> set ''0123456789'')"

text \<open>White space and line terminators, as far as a \<open>char\<close> reaches.\<close>

definition isSpace :: "char \<Rightarrow> bool" where
  "isSpace c = (c \<in> set [CHR 0x09, CHR 0x0A, CHR 0x0B, CHR 0x0C, CHR 0x0D, CHR 0x20, CHR 0xA0])"

definition trim :: "string \<Rightarrow> string" where
  "trim s = rev (dropWhile isSpace (rev (dropWhile isSpace s)))"

definition str_includes :: "string \<Rightarrow> char \<Rightarrow> bool" where
  "str_includes s c = (c \<in> set s)"

definition skip_char :: "char \<Rightarrow> string \<Rightarrow> string" where
  "skip_char c s = (case s of [] \<Rightarrow> [] | x # t \<Rightarrow> if x = c then t else s)"

text \<open>
  \<open>-?\d+\.?\d*\<close> at the start of a string: what is left after it, or \<open>None\<close> when there is
  no digit. Taking the longest run each time loses no match: a shorter run of digits is
  followed by a digit, which neither the point nor the comma nor the end matches.
\<close>

definition number_pattern :: "string \<Rightarrow> string option" where
  "number_pattern s =
     (let s1 = skip_char (CHR ''-'') s
      in if takeWhile isDigit s1 = [] then None
         else Some (dropWhile isDigit (skip_char (CHR ''.'') (dropWhile isDigit s1))))"

text \<open>A string that begins with an optional minus sign and a digit.\<close>

definition starts_number :: "string \<Rightarrow> bool" where
  "starts_number n = (takeWhile isDigit (skip_char (CHR ''-'') n) \<noteq> [])"

text \<open>The test of \<open>/^-?\d+\.?\d*,-?\d+\.?\d*$/\<close>.\<close>

definition coordinate_pattern :: "string \<Rightarrow> bool" where
  "coordinate_pattern s =
     (case number_pattern s of
        None \<Rightarrow> False
      | Some r \<Rightarrow>
          (case r of
             [] \<Rightarrow> False
           | c # t \<Rightarrow> c = CHR '','' \<and> number_pattern t = Some []))"

fun split :: "char \<Rightarrow> string \<Rightarrow> string list" where
  "split c [] = [[]]"
| "split c (x # xs) =
     (if x = c then [] # split c xs
      else (case split c xs of [] \<Rightarrow> [[x]] | p # ps \<Rightarrow> (x # p) # ps))"

definition digits_value :: "string \<Rightarrow> nat" where
  "digits_value ds = foldl (\<lambda>n c. 10 * n + (of_char c - 48)) 0 ds"

text \<open>The exponent part of a decimal literal: the factor it stands for, 1 when there is none.\<close>

definition exponent_factor :: "string \<Rightarrow> rat" where
  "exponent_factor s =
     (case s of
        [] \<Rightarrow> 1
      | e # t \<Rightarrow>
          if e = CHR ''e'' \<or> e = CHR ''E'' then
            (let neg = (case t of [] \<Rightarrow> False | x # _ \<Rightarrow> x = CHR ''-'');
                 t1 = (case t of [] \<Rightarrow> [] | x # t' \<Rightarrow> if x = CHR ''-'' \<or> x = CHR ''+'' then t' else t);
                 ds = takeWhile isDigit t1
             in if ds = [] then 1
                else if neg then 1 / 10 ^ digits_value ds else 10 ^ digits_value ds)
          else 1)"

text \<open>
  \<open>parseFloat\<close>: leading white space is skipped and the longest prefix that is a decimal
  literal is read and rounded to a double; \<open>NaN\<close> when there is none. The literal
  \<open>Infinity\<close> is not represented, and a literal beyond the largest double stays a
  number, as it does in the handler, where \<open>isNaN(Infinity)\<close> is false.
\<close>

definition parseFloat :: "string \<Rightarrow> jsnum" where
  "parseFloat s =
     (let t = dropWhile isSpace s;
          neg = (case t of [] \<Rightarrow> False | x # _ \<Rightarrow> x = CHR ''-'');
          u = (case t of [] \<Rightarrow> [] | x # t' \<Rightarrow> if x = CHR ''-'' \<or> x = CHR ''+'' then t' else t);
          ip = takeWhile isDigit u;
          r1 = dropWhile isDigit u;
          dot = (case r1 of [] \<Rightarrow> False | x # _ \<Rightarrow> x = CHR ''.'');
          fp = (if dot then takeWhile isDigit (tl r1) else []);
          r2 = (if dot then dropWhile isDigit (tl r1) else r1)
      in if ip = [] \<and> fp = [] then NaN
         else Num (fl ((if neg then - 1 else 1)
                       * (of_nat (digits_value (ip @ fp)) / 10 ^ length fp)
                       * exponent_factor r2)))"

text \<open>
  \<open>const [lat, lng] = location.split(',').map(parseFloat)\<close> and the \<open>isNaN\<close> test; a
  missing second element is \<open>undefined\<close>, which \<open>isNaN\<close> takes for \<open>NaN\<close>.
\<close>

definition parse_coordinates :: "string \<Rightarrow> failure + coordinates" where
  "parse_coordinates loc =
     (case map parseFloat (split (CHR '','') loc) of
        Num a # Num b # _ \<Rightarrow> Inr \<lparr>lat = a, lng = b\<rparr>
      | _ \<Rightarrow> Inl InvalidCoordinates)"

definition geocode_failure :: "string \<Rightarrow> string \<Rightarrow> failure" where
  "geocode_failure loc st =
     (if st = ''ZERO_RESULTS'' then LocationNotFound loc else GeocodingError st)"

definition geocode_address :: "world \<Rightarrow> string \<Rightarrow> failure + coordinates" where
  "geocode_address w loc =
     (case geocode w loc of
        Throws m \<Rightarrow> Inl (Exception m)
      | Returns g \<Rightarrow>
          (case gc_results g of
             [] \<Rightarrow> Inl (geocode_failure loc (gc_status g))
           | r # _ \<Rightarrow>
               if gc_status g \<noteq> ''OK'' then Inl (geocode_failure loc (gc_status g))
               else Inr (gr_location r)))"

definition resolve_location :: "world \<Rightarrow> string \<Rightarrow> (failure + coordinates) \<times> event list" where
  "resolve_location w loc =
     (if str_includes loc (CHR '','') \<and> coordinate_pattern (trim loc)
      then (parse_coordinates loc, [])
      else (geocode_address w loc, [Geocode loc]))"

section \<open>Step 2: the nearby search (lines 110-124)\<close>

text \<open>\<open>&maxprice=\<close> is sent only when \<open>max_price < 4\<close>.\<close>

definition search_places ::
  "world \<Rightarrow> coordinates \<Rightarrow> rat \<Rightarrow> rat \<Rightarrow> (failure + place option list) \<times> event list"
  where
  "search_places w coords radius max_price =
     (let maxprice = (if max_price < 4 then Some max_price else None)
      in (case nearbysearch w coords radius maxprice of
            Throws m \<Rightarrow> Inl (Exception m)
          | Returns placesData \<Rightarrow>
              if ps_status placesData \<noteq> ''OK''
              then Inl (PlacesSearchError (ps_status placesData))
              else Inr (ps_results placesData),
          [NearbySearch coords radius maxprice]))"

section \<open>Step 3: the details of a candidate (lines 128-183)\<close>

definition day_ms :: int where
  "day_ms = 24 * 60 * 60 * 1000"

text \<open>\<open>.gte('cached_at', now - 24h)\<close>: the row counts when it is not older than 24 hours.\<close>

definition fresh_restaurant :: "int \<Rightarrow> restaurantData option \<Rightarrow> restaurantData option" where
  "fresh_restaurant now row =
     (case row of
        None \<Rightarrow> None
      | Some r \<Rightarrow> if rd_cached_at r \<ge> now - day_ms then Some r else None)"

definition photo_url :: "string \<Rightarrow> string \<Rightarrow> string" where
  "photo_url key photo_reference =
     ''https://maps.googleapis.com/maps/api/place/photo?maxwidth=800&photo_reference=''
       @ photo_reference @ ''&key='' @ key"

text \<open>Lines 156-175; reading \<open>details.geometry.location\<close> throws when there is no geometry.\<close>

definition make_restaurantData :: "string \<Rightarrow> int \<Rightarrow> PlaceDetails \<Rightarrow> restaurantData option" where
  "make_restaurantData key now d =
     (case geometry d of
        None \<Rightarrow> None
      | Some loc \<Rightarrow>
          Some \<lparr>rd_place_id = place_id d,
                rd_name = name d,
                rd_rating = rating d,
                rd_price_level = price_level d,
                rd_formatted_address = formatted_address d,
                rd_location = loc,
                rd_photos = (case photos d of None \<Rightarrow> [] | Some ps \<Rightarrow> map (photo_url key) (take 3 ps)),
                rd_phone_number = formatted_phone_number d,
                rd_website = website d,
                rd_types = types d,
                rd_reviews = (case reviews d of None \<Rightarrow> Some [] | Some rs \<Rightarrow> Some rs),
                rd_cached_at = now\<rparr>)"

text \<open>
  The cache-miss branch (lines 143-182). \<open>None\<close> is the candidate resolving to \<open>null\<close>: by
  \<open>return null\<close> on a status other than \<open>OK\<close>, or by an exception that the candidate's
  \<open>catch\<close> turns into \<open>null\<close>.
\<close>

definition fetch_details :: "world \<Rightarrow> string \<Rightarrow> place \<Rightarrow> restaurantData option \<times> event list" where
  "fetch_details w key p =
     (let pid = pl_place_id p in
      case details w pid of
        Throws m \<Rightarrow> (None, [FetchDetails pid])
      | Returns detailsData \<Rightarrow>
          if dd_status detailsData \<noteq> ''OK'' then (None, [FetchDetails pid])
          else
            (case dd_result detailsData of
               None \<Rightarrow> (None, [FetchDetails pid])
             | Some d \<Rightarrow>
                 (case make_restaurantData key (clock w (RestaurantWrite pid)) d of
                    None \<Rightarrow> (None, [FetchDetails pid])
                  | Some rd \<Rightarrow>
                      (case restaurants_upsert w rd of
                         Throws m \<Rightarrow> (None, [FetchDetails pid, UpsertRestaurant rd])
                       | Returns _ \<Rightarrow> (Some rd, [FetchDetails pid, UpsertRestaurant rd])))))"

definition get_restaurantData ::
  "world \<Rightarrow> string \<Rightarrow> place \<Rightarrow> restaurantData option \<times> event list" where
  "get_restaurantData w key p =
     (let pid = pl_place_id p in
      case restaurants_row w pid of
        Throws m \<Rightarrow> (None, [SelectRestaurant pid])
      | Returns row \<Rightarrow>
          (case fresh_restaurant (clock w (RestaurantCheck pid)) row of
             Some cachedRestaurant \<Rightarrow> (Some cachedRestaurant, [SelectRestaurant pid])
           | None \<Rightarrow>
               (let (res, evs) = fetch_details w key p
                in (res, SelectRestaurant pid # evs))))"

section \<open>Step 4: the AI summary of a candidate (lines 185-309)\<close>

definition fresh_summary :: "int \<Rightarrow> aiSummary option \<Rightarrow> aiSummary option" where
  "fresh_summary now row =
     (case row of
        None \<Rightarrow> None
      | Some a \<Rightarrow> if generated_at a \<ge> now - day_ms then Some a else None)"

text \<open>\<open>review.text && review.text.length > 20\<close>.\<close>

definition qualifies :: "review \<Rightarrow> bool" where
  "qualifies r = (case review_text r of None \<Rightarrow> False | Some t \<Rightarrow> t \<noteq> [] \<and> length t > 20)"

definition text_of :: "review \<Rightarrow> string" where
  "text_of r = (case review_text r of None \<Rightarrow> [] | Some t \<Rightarrow> t)"

definition reviewTexts :: "review list \<Rightarrow> string list" where
  "reviewTexts rs = map text_of (take 12 (filter qualifies rs))"

text \<open>
  Reading a property of a parsed value: an object gives the property or \<open>undefined\<close>, and
  a boolean, number, string or array has none of the properties that are read here.
  Reading a property of \<open>null\<close> throws a \<open>TypeError\<close>.
\<close>

definition nullish :: "jsval \<Rightarrow> bool" where
  "nullish v = (case v of JNull \<Rightarrow> True | JUndefined \<Rightarrow> True | _ \<Rightarrow> False)"

definition get :: "jsval \<Rightarrow> string \<Rightarrow> jsval" where
  "get v k =
     (case v of
        JObject kvs \<Rightarrow> (case map_of kvs k of None \<Rightarrow> JUndefined | Some x \<Rightarrow> x)
      | _ \<Rightarrow> JUndefined)"

text \<open>\<open>ToNumber\<close>, which \<open>Math.min\<close> and \<open>Math.max\<close> apply to their arguments.\<close>

definition toNumber :: "world \<Rightarrow> jsval \<Rightarrow> jsnum" where
  "toNumber w v =
     (case v of
        JUndefined \<Rightarrow> NaN
      | JNull \<Rightarrow> Num 0
      | JBool b \<Rightarrow> Num (if b then 1 else 0)
      | JNumber n \<Rightarrow> n
      | _ \<Rightarrow> toNumber_other w v)"

definition math_min :: "jsnum \<Rightarrow> jsnum \<Rightarrow> jsnum" where
  "math_min a b =
     (case a of NaN \<Rightarrow> NaN | Num x \<Rightarrow> (case b of NaN \<Rightarrow> NaN | Num y \<Rightarrow> Num (min x y)))"

definition math_max :: "jsnum \<Rightarrow> jsnum \<Rightarrow> jsnum" where
  "math_max a b =
     (case a of NaN \<Rightarrow> NaN | Num x \<Rightarrow> (case b of NaN \<Rightarrow> NaN | Num y \<Rightarrow> Num (max x y)))"

text \<open>\<open>Array.isArray(x) ? x : []\<close>.\<close>

definition array_or_empty :: "jsval \<Rightarrow> jsval list" where
  "array_or_empty v = (case v of JArray xs \<Rightarrow> xs | _ \<Rightarrow> [])"

text \<open>
  The object literal of lines 284-294. \<open>None\<close> is the \<open>TypeError\<close> of reading a property of
  \<open>null\<close>, which the \<open>catch\<close> of line 301 takes.
\<close>

definition make_aiSummary :: "world \<Rightarrow> int \<Rightarrow> jsval \<Rightarrow> aiSummary option" where
  "make_aiSummary w now analysis =
     (if nullish analysis then None
      else
        Some \<lparr>s_place_id = get analysis ''place_id'',
              rank_score =
                math_max (Num 0) (math_min (Num 100) (toNumber w (get analysis ''rank_score''))),
              short_summary = get analysis ''short_summary'',
              pros = array_or_empty (get analysis ''pros''),
              cons = array_or_empty (get analysis ''cons''),
              top_positive_quote = get analysis ''top_positive_quote'',
              top_negative_quote = get analysis ''top_negative_quote'',
              confidence =
                math_max (Num 0) (math_min (Num 1) (toNumber w (get analysis ''confidence''))),
              generated_at = now\<rparr>)"

text \<open>
  Lines 198-309, after a miss of the summary cache. Whatever goes wrong inside is taken
  by the \<open>catch\<close> of line 301 or of line 305, and the candidate goes on without a
  summary. An upsert that throws is caught after \<open>aiSummary\<close> has been assigned.
\<close>

definition generate_summary ::
  "world \<Rightarrow> restaurantData \<Rightarrow> aiSummary option \<times> event list" where
  "generate_summary w rd =
     (let pid = rd_place_id rd in
      case rd_reviews rd of
        None \<Rightarrow> (None, [])
      | Some rs \<Rightarrow>
          if length rs > 0 then
            (let texts = reviewTexts rs in
             if length texts > 0 then
               (case generateContent w pid texts of
                  Throws m \<Rightarrow> (None, [Summarize pid texts])
                | Returns NoCandidate \<Rightarrow> (None, [Summarize pid texts])
                | Returns Unparsable \<Rightarrow> (None, [Summarize pid texts])
                | Returns (Parsed analysis) \<Rightarrow>
                    (case make_aiSummary w (clock w (SummaryWrite pid)) analysis of
                       None \<Rightarrow> (None, [Summarize pid texts])
                     | Some a \<Rightarrow>
                         (case summaries_upsert w a of
                            Throws m \<Rightarrow> (Some a, [Summarize pid texts, UpsertSummary a])
                          | Returns _ \<Rightarrow> (Some a, [Summarize pid texts, UpsertSummary a]))))
             else (None, []))
          else (None, []))"

text \<open>
  Lines 186-309. \<open>Throws\<close> is an exception of the cache query, which leaves the
  candidate's \<open>try\<close> block for the \<open>catch\<close> of line 334.
\<close>

definition get_aiSummary ::
  "world \<Rightarrow> restaurantData \<Rightarrow> aiSummary option outcome \<times> event list" where
  "get_aiSummary w rd =
     (let pid = rd_place_id rd in
      case summaries_row w pid of
        Throws m \<Rightarrow> (Throws m, [SelectSummary pid])
      | Returns row \<Rightarrow>
          (case fresh_summary (clock w (SummaryCheck pid)) row of
             Some cachedSummary \<Rightarrow> (Returns (Some cachedSummary), [SelectSummary pid])
           | None \<Rightarrow>
               (let (a, evs) = generate_summary w rd
                in (Returns a, SelectSummary pid # evs))))"

definition view :: "aiSummary \<Rightarrow> ai_summary" where
  "view a =
     \<lparr>v_rank_score = rank_score a,
      v_short_summary = short_summary a,
      v_pros = pros a,
      v_cons = cons a,
      v_top_positive_quote = top_positive_quote a,
      v_top_negative_quote = top_negative_quote a,
      v_confidence = confidence a\<rparr>"

text \<open>The object returned for a candidate (lines 311-332).\<close>

definition make_restaurant :: "restaurantData \<Rightarrow> aiSummary option \<Rightarrow> restaurant" where
  "make_restaurant rd a =
     \<lparr>r_id = rd_place_id rd,
      r_place_id = rd_place_id rd,
      r_name = rd_name rd,
      r_rating = rd_rating rd,
      r_price_level = rd_price_level rd,
      r_formatted_address = rd_formatted_address rd,
      r_location = rd_location rd,
      r_photos = rd_photos rd,
      r_phone_number = rd_phone_number rd,
      r_website = rd_website rd,
      r_types = rd_types rd,
      r_ai_summary = map_option view a\<rparr>"

text \<open>
  The body of \<open>map(async (place) => ...)\<close> (lines 127-338): the restaurant, or \<open>None\<close> for
  \<open>null\<close>, and the calls that were made.
\<close>

definition process_place :: "world \<Rightarrow> string \<Rightarrow> place \<Rightarrow> restaurant option \<times> event list" where
  "process_place w key p =
     (case get_restaurantData w key p of
        (None, evs) \<Rightarrow> (None, evs)
      | (Some rd, evs) \<Rightarrow>
          (case get_aiSummary w rd of
             (Throws m, evs') \<Rightarrow> (None, evs @ evs')
           | (Returns a, evs') \<Rightarrow> (Some (make_restaurant rd a), evs @ evs')))"

section \<open>Step 5: scoring (lines 343-367)\<close>

text \<open>\<open>Math.round\<close>: the nearest integer, a half going up.\<close>

definition math_round :: "rat \<Rightarrow> int" where
  "math_round x = \<lfloor>x + 1 / 2\<rfloor>"

text \<open>
  \<open>if (restaurant.rating)\<close>, \<open>if (restaurant.ai_summary?.rank_score)\<close> and
  \<open>if (restaurant.price_level)\<close> test truthiness: a number counts when it is there and
  is neither 0 nor \<open>NaN\<close>.
\<close>

definition has_rating :: "restaurant \<Rightarrow> bool" where
  "has_rating r = (case r_rating r of None \<Rightarrow> False | Some x \<Rightarrow> x \<noteq> 0)"

definition has_rank_score :: "restaurant \<Rightarrow> bool" where
  "has_rank_score r =
     (case r_ai_summary r of
        None \<Rightarrow> False
      | Some a \<Rightarrow> (case v_rank_score a of NaN \<Rightarrow> False | Num x \<Rightarrow> x \<noteq> 0))"

definition has_price_level :: "restaurant \<Rightarrow> bool" where
  "has_price_level r = (case r_price_level r of None \<Rightarrow> False | Some p \<Rightarrow> p \<noteq> 0)"

text \<open>
  The three terms, each 0 when its test fails: \<open>(rating / 5) * 50\<close>,
  \<open>(rank_score / 100) * 30\<close> and \<open>priceFit * 20\<close> with
  \<open>priceFit = 1 - Math.abs(price_level - max_price) / 4\<close>. Every division, product and
  difference is rounded; \<open>Math.abs\<close> is exact.
\<close>

definition rating_points :: "restaurant \<Rightarrow> rat" where
  "rating_points r =
     (case r_rating r of
        None \<Rightarrow> 0
      | Some x \<Rightarrow> if x \<noteq> 0 then fl (fl (x / 5) * 50) else 0)"

definition ai_points :: "restaurant \<Rightarrow> rat" where
  "ai_points r =
     (case r_ai_summary r of
        None \<Rightarrow> 0
      | Some a \<Rightarrow>
          (case v_rank_score a of
             NaN \<Rightarrow> 0
           | Num x \<Rightarrow> if x \<noteq> 0 then fl (fl (x / 100) * 30) else 0))"

definition price_points :: "rat \<Rightarrow> restaurant \<Rightarrow> rat" where
  "price_points max_price r =
     (case r_price_level r of
        None \<Rightarrow> 0
      | Some p \<Rightarrow>
          if p \<noteq> 0
          then (let priceFit = fl (1 - fl (\<bar>fl (p - max_price)\<bar> / 4)) in fl (priceFit * 20))
          else 0)"

text \<open>
  \<open>let totalScore = 0\<close> and the three \<open>totalScore += ...\<close>, each a rounded addition that is
  made only when its test holds.
\<close>

definition totalScore :: "rat \<Rightarrow> restaurant \<Rightarrow> rat" where
  "totalScore max_price r =
     (let s0 = 0;
          s1 = (if has_rating r then fl (s0 + rating_points r) else s0);
          s2 = (if has_rank_score r then fl (s1 + ai_points r) else s1);
          s3 = (if has_price_level r then fl (s2 + price_points max_price r) else s2)
      in s3)"

definition score :: "rat \<Rightarrow> restaurant \<Rightarrow> ranked" where
  "score max_price r = \<lparr>entry = r, total_score = math_round (totalScore max_price r)\<rparr>"

text \<open>
  \<open>Array.prototype.sort\<close> with a comparator: stable (ECMAScript 2019), here as an insertion
  sort that puts an element before the first one it does not come after.
\<close>

fun insert_by :: "('a \<Rightarrow> 'a \<Rightarrow> int) \<Rightarrow> 'a \<Rightarrow> 'a list \<Rightarrow> 'a list" where
  "insert_by cmp x [] = [x]"
| "insert_by cmp x (y # ys) = (if cmp x y \<le> 0 then x # y # ys else y # insert_by cmp x ys)"

definition sort_by :: "('a \<Rightarrow> 'a \<Rightarrow> int) \<Rightarrow> 'a list \<Rightarrow> 'a list" where
  "sort_by cmp xs = foldr (insert_by cmp) xs []"

text \<open>\<open>(a, b) => b.total_score - a.total_score\<close>.\<close>

definition by_total_score :: "ranked \<Rightarrow> ranked \<Rightarrow> int" where
  "by_total_score a b = total_score b - total_score a"

definition rankedRestaurants :: "rat \<Rightarrow> restaurant list \<Rightarrow> ranked list" where
  "rankedRestaurants max_price rs = sort_by by_total_score (map (score max_price) rs)"

section \<open>The handler (lines 56-397)\<close>

text \<open>
  The promise of one element of the list. For \<open>null\<close> the \<open>try\<close> block throws at
  \<open>place.place_id\<close>, and the \<open>catch\<close> of line 334 throws again when it reads \<open>place.name\<close>
  (line 335): the promise is rejected with that \<open>TypeError\<close>.
\<close>

definition null_place_message :: string where
  "null_place_message = ''Cannot read properties of null (reading ''
     @ [CHR 0x27] @ ''name'' @ [CHR 0x27] @ '')''"

definition process_entry ::
  "world \<Rightarrow> string \<Rightarrow> place option \<Rightarrow> restaurant option outcome \<times> event list" where
  "process_entry w key e =
     (case e of
        None \<Rightarrow> (Throws null_place_message, [])
      | Some p \<Rightarrow> (Returns (fst (process_place w key p)), snd (process_place w key p)))"

text \<open>
  \<open>Promise.all\<close>: the values when every promise is fulfilled, the rejection when one is
  rejected (the rejections here all carry the same message).
\<close>

fun promise_all :: "'a outcome list \<Rightarrow> 'a list outcome" where
  "promise_all [] = Returns []"
| "promise_all (Throws m # rs) = Throws m"
| "promise_all (Returns x # rs) =
     (case promise_all rs of Throws m \<Rightarrow> Throws m | Returns xs \<Rightarrow> Returns (x # xs))"

text \<open>
  \<open>(await Promise.all(restaurantPromises)).filter(Boolean)\<close> over the first 25 elements
  (lines 127-340). Every promise is started before the first one settles, so the calls
  of all of them are listed also when \<open>Promise.all\<close> is rejected.
\<close>

definition enrich ::
  "world \<Rightarrow> string \<Rightarrow> place option list \<Rightarrow> (failure + restaurant list) \<times> event list" where
  "enrich w key ps =
     (let results = map (process_entry w key) (take 25 ps)
      in (case promise_all (map fst results) of
            Throws m \<Rightarrow> Inl (Exception m)
          | Returns rs \<Rightarrow> Inr (List.map_filter (\<lambda>r. r) rs),
          concat (map snd results)))"

definition falsy_key :: "string option \<Rightarrow> bool" where
  "falsy_key k = (case k of None \<Rightarrow> True | Some s \<Rightarrow> s = [])"

text \<open>The defaults of the destructuring in line 75.\<close>

definition radius_of :: "SearchParams \<Rightarrow> rat" where
  "radius_of params = (case p_radius params of None \<Rightarrow> 5000 | Some r \<Rightarrow> r)"

definition max_price_of :: "SearchParams \<Rightarrow> rat" where
  "max_price_of params = (case p_max_price params of None \<Rightarrow> 4 | Some m \<Rightarrow> m)"

definition googleApiKey :: "world \<Rightarrow> string" where
  "googleApiKey w = (case GOOGLE_PLACES_API_KEY w of None \<Rightarrow> [] | Some k \<Rightarrow> k)"

text \<open>The \<open>try\<close> block of the handler: what it throws, or the ranked list and the coordinates.\<close>

definition search ::
  "world \<Rightarrow> request \<Rightarrow> (failure + ranked list \<times> coordinates) \<times> event list" where
  "search w req =
     (if falsy_key (GOOGLE_PLACES_API_KEY w) \<or> falsy_key (GEMINI_API_KEY w)
      then (Inl MissingKeys, [])
      else
        (case json req of
           Throws m \<Rightarrow> (Inl (Exception m), [])
         | Returns params \<Rightarrow>
             (case resolve_location w (p_location params) of
                (Inl e, evs1) \<Rightarrow> (Inl e, evs1)
              | (Inr coords, evs1) \<Rightarrow>
                  (case search_places w coords (radius_of params) (max_price_of params) of
                     (Inl e, evs2) \<Rightarrow> (Inl e, evs1 @ evs2)
                   | (Inr ps, evs2) \<Rightarrow>
                       (case enrich w (googleApiKey w) ps of
                          (Inl e, evs3) \<Rightarrow> (Inl e, evs1 @ evs2 @ evs3)
                        | (Inr rs, evs3) \<Rightarrow>
                            (Inr (rankedRestaurants (max_price_of params) rs, coords),
                             evs1 @ evs2 @ evs3))))))"

definition serve :: "world \<Rightarrow> request \<Rightarrow> response \<times> event list" where
  "serve w req =
     (if req_method req = ''OPTIONS'' then (\<lparr>status = 200, body = None\<rparr>, [])
      else
        (case search w req of
           (Inr (ranked, coords), evs) \<Rightarrow>
             (\<lparr>status = 200,
               body = Some \<lparr>error = None,
                            restaurants = ranked,
                            search_location = Some coords,
                            total_found = length ranked\<rparr>\<rparr>,
              evs)
         | (Inl e, evs) \<Rightarrow>
             (\<lparr>status = 500,
               body = Some \<lparr>error = Some (message e),
                            restaurants = [],
                            search_location = None,
                            total_found = 0\<rparr>\<rparr>,
              evs)))"

text \<open>The \<open>restaurants\<close> of a response body; none when there is no body.\<close>

definition restaurants_of :: "response \<Rightarrow> ranked list" where
  "restaurants_of resp = (case body resp of None \<Rightarrow> [] | Some b \<Rightarrow> restaurants b)"

section \<open>The formulas of the specification and reference inputs\<close>

text \<open>
  The price fit in the words of the specification: \<open>1 - |price_level - max_price| / 4\<close>,
  and 0 when the price level is absent.
\<close>

definition spec_price_fit :: "rat \<Rightarrow> rat option \<Rightarrow> rat" where
  "spec_price_fit max_price pl = (case pl of None \<Rightarrow> 0 | Some p \<Rightarrow> 1 - \<bar>p - max_price\<bar> / 4)"

text \<open>
  The total score in the words of the specification; a rank score that is not a number
  counts as absent.
\<close>

definition spec_total_score :: "rat \<Rightarrow> restaurant \<Rightarrow> rat" where
  "spec_total_score max_price r =
     (case r_rating r of None \<Rightarrow> 0 | Some x \<Rightarrow> x / 5 * 50)
     + (case r_ai_summary r of
          None \<Rightarrow> 0
        | Some a \<Rightarrow> (case v_rank_score a of NaN \<Rightarrow> 0 | Num k \<Rightarrow> k / 100 * 30))
     + spec_price_fit max_price (r_price_level r) * 20"

text \<open>
  The ranges that the specification gives to the signals: rating 0 to 5, rank score 0
  to 100, price level and \<open>max_price\<close> 0 to 4.
\<close>

definition in_range :: "rat \<Rightarrow> restaurant \<Rightarrow> bool" where
  "in_range max_price r \<longleftrightarrow>
     (case r_rating r of None \<Rightarrow> True | Some x \<Rightarrow> 0 \<le> x \<and> x \<le> 5)
     \<and> (case r_ai_summary r of
          None \<Rightarrow> True
        | Some a \<Rightarrow> (case v_rank_score a of NaN \<Rightarrow> True | Num k \<Rightarrow> 0 \<le> k \<and> k \<le> 100))
     \<and> (case r_price_level r of None \<Rightarrow> True | Some p \<Rightarrow> 0 \<le> p \<and> p \<le> 4)
     \<and> 0 \<le> max_price \<and> max_price \<le> 4"

text \<open>
  A value that is at least \<open>2^-43\<close> away from every \<open>k + 1/2\<close>: the rounding errors of the
  double sum cannot carry it across a point where \<open>Math.round\<close> changes.
\<close>

definition clear_of_ties :: "rat \<Rightarrow> bool" where
  "clear_of_ties x \<longleftrightarrow>
     1 / 2 ^ 43 \<le> frac (x + 1 / 2) \<and> frac (x + 1 / 2) \<le> 1 - 1 / 2 ^ 43"




text \<open>A candidate with the given rating, AI rank score and price level.\<close>

definition candidate :: "rat option \<Rightarrow> jsnum option \<Rightarrow> rat option \<Rightarrow> restaurant" where
  "candidate rt ai pl =
     \<lparr>r_id = ''p1'', r_place_id = ''p1'', r_name = ''Cafe'',
      r_rating = rt, r_price_level = pl, r_formatted_address = ''1 Main St'',
      r_location = \<lparr>lat = 1, lng = 2\<rparr>, r_photos = [], r_phone_number = None,
      r_website = None, r_types = [''restaurant''],
      r_ai_summary =
        map_option (\<lambda>k. \<lparr>v_rank_score = k, v_short_summary = JString ''Good.'',
                           v_pros = [], v_cons = [], v_top_positive_quote = JUndefined,
                           v_top_negative_quote = JUndefined, v_confidence = Num 1\<rparr>) ai\<rparr>"

text \<open>
  A world for the examples: place A has a fresh cached row and a fresh cached summary,
  B is fetched and summarised, C is answered with status \<open>NOT_FOUND\<close>, D has a row that is 24
  hours and one second old and only short reviews, E has only short reviews and a fresh
  cached summary, F has no reviews and the score of D. The nearby search returns A, B, C,
  D and F at latitude 1 and fails elsewhere.
\<close>

definition now0 :: int where
  "now0 = 1700000000000"

definition long_review :: review where
  "long_review =
     \<lparr>review_text = Some ''Great food and friendly staff.'',
      review_rating = Some 5, review_time = Some 1\<rparr>"

definition short_review :: review where
  "short_review =
     \<lparr>review_text = Some ''Nice place'', review_rating = Some 4, review_time = Some 2\<rparr>"

definition sample_details :: "string \<Rightarrow> rat \<Rightarrow> rat \<Rightarrow> review list \<Rightarrow> PlaceDetails" where
  "sample_details pid rt pl rs =
     \<lparr>place_id = pid, name = ''Cafe '' @ pid, rating = Some rt, price_level = Some pl,
      formatted_address = ''1 Main St'', geometry = Some \<lparr>lat = 1, lng = 2\<rparr>,
      photos = None, formatted_phone_number = None, website = None,
      types = [''restaurant''], reviews = Some rs\<rparr>"

definition sample_row ::
  "string \<Rightarrow> rat \<Rightarrow> rat \<Rightarrow> review list \<Rightarrow> int \<Rightarrow> restaurantData" where
  "sample_row pid rt pl rs t =
     \<lparr>rd_place_id = pid, rd_name = ''Cafe '' @ pid, rd_rating = Some rt,
      rd_price_level = Some pl, rd_formatted_address = ''1 Main St'',
      rd_location = \<lparr>lat = 1, lng = 2\<rparr>, rd_photos = [], rd_phone_number = None,
      rd_website = None, rd_types = [''restaurant''], rd_reviews = Some rs,
      rd_cached_at = t\<rparr>"

definition sample_summary :: "string \<Rightarrow> rat \<Rightarrow> int \<Rightarrow> aiSummary" where
  "sample_summary pid k t =
     \<lparr>s_place_id = JString pid, rank_score = Num k, short_summary = JString ''Good.'',
      pros = [], cons = [], top_positive_quote = JNull, top_negative_quote = JNull,
      confidence = Num 1, generated_at = t\<rparr>"

text \<open>A parsed generator output: a rank score out of range, \<open>pros\<close> that is not a list.\<close>

definition sample_analysis :: jsval where
  "sample_analysis =
     JObject [(''place_id'', JString ''B''),
              (''rank_score'', JNumber (Num 150)),
              (''short_summary'', JString ''Good food.''),
              (''pros'', JString ''tasty''),
              (''dishes_to_try'', JArray [JString ''Dosa'']),
              (''matching_menu_items'', JArray [JString ''Idli'']),
              (''confidence'', JNumber (Num (1 / 2)))]"

definition place_of :: "string \<Rightarrow> place" where
  "place_of pid = \<lparr>pl_place_id = pid, pl_name = ''Cafe '' @ pid\<rparr>"

definition sample_places :: "place option list" where
  "sample_places =
     map Some [place_of ''A'', place_of ''B'', place_of ''C'', place_of ''D'', place_of ''F'']"

definition sample_world :: world where
  "sample_world =
     \<lparr>GOOGLE_PLACES_API_KEY = Some ''g'',
      GEMINI_API_KEY = Some ''m'',
      geocode = (\<lambda>loc. Returns \<lparr>gc_status = ''ZERO_RESULTS'', gc_results = []\<rparr>),
      nearbysearch = (\<lambda>c r m.
         if lat c = 1 then Returns \<lparr>ps_status = ''OK'', ps_results = sample_places\<rparr>
         else Returns \<lparr>ps_status = ''OVER_QUERY_LIMIT'', ps_results = []\<rparr>),
      restaurants_row = (\<lambda>pid.
         if pid = ''A''
         then Returns (Some (sample_row ''A'' 4 2 [long_review] (now0 - 1000)))
         else if pid = ''D''
         then Returns (Some (sample_row ''D'' 3 4 [long_review] (now0 - day_ms - 1000)))
         else Returns None),
      details = (\<lambda>pid.
         if pid = ''B''
         then Returns \<lparr>dd_status = ''OK'',
                       dd_result = Some (sample_details ''B'' 4 2 [long_review, short_review])\<rparr>
         else if pid = ''D'' \<or> pid = ''E''
         then Returns \<lparr>dd_status = ''OK'',
                       dd_result = Some (sample_details pid 4 2 [short_review])\<rparr>
         else if pid = ''F''
         then Returns \<lparr>dd_status = ''OK'', dd_result = Some (sample_details ''F'' 4 2 [])\<rparr>
         else if pid = ''C''
         then Returns \<lparr>dd_status = ''NOT_FOUND'',
                       dd_result = Some (sample_details ''C'' 5 2 [long_review])\<rparr>
         else Returns \<lparr>dd_status = ''NOT_FOUND'', dd_result = None\<rparr>),
      restaurants_upsert = (\<lambda>rd. Returns ()),
      summaries_row = (\<lambda>pid.
         if pid = ''A'' \<or> pid = ''E''
         then Returns (Some (sample_summary pid 80 (now0 - 1000)))
         else Returns None),
      generateContent = (\<lambda>pid texts. Returns (Parsed sample_analysis)),
      summaries_upsert = (\<lambda>a. Returns ()),
      clock = (\<lambda>p. now0),
      toNumber_other = (\<lambda>v. NaN)\<rparr>"

text \<open>A request for a location, with \<open>max_price\<close> 2 and the default radius.\<close>

definition sample_params :: "string \<Rightarrow> SearchParams" where
  "sample_params loc =
     \<lparr>p_location = loc, p_radius = None, p_max_price = Some 2, p_cuisine = None,
      p_veg_only = None, p_jain_food = None, p_menu = None\<rparr>"

definition sample_request :: "string \<Rightarrow> request" where
  "sample_request loc = \<lparr>req_method = ''POST'', json = Returns (sample_params loc)\<rparr>"

text \<open>A parsed generator output without \<open>confidence\<close>.\<close>

definition analysis_without_confidence :: jsval where
  "analysis_without_confidence =
     JObject [(''place_id'', JString ''B''),
              (''rank_score'', JNumber (Num 50)),
              (''short_summary'', JString ''Good food.''),
              (''pros'', JArray [JString ''tasty'']),
              (''cons'', JArray [])]"

text \<open>The record that is built from it at time \<open>t\<close>.\<close>

definition NaN_summary :: "int \<Rightarrow> aiSummary" where
  "NaN_summary t =
     \<lparr>s_place_id = JString ''B'', rank_score = Num 50,
      short_summary = JString ''Good food.'', pros = [JString ''tasty''], cons = [],
      top_positive_quote = JUndefined, top_negative_quote = JUndefined,
      confidence = NaN, generated_at = t\<rparr>"

text \<open>The sample world with a generator that leaves \<open>confidence\<close> out.\<close>

definition forgetful_world :: world where
  "forgetful_world =
     sample_world\<lparr>generateContent := (\<lambda>pid texts. Returns (Parsed analysis_without_confidence))\<rparr>"





section \<open>Double arithmetic\<close>

lemma round_even_error: "\<bar>rat_of_int (round_even y) - y\<bar> \<le> 1 / 2"
proof -
  have "rat_of_int \<lfloor>y\<rfloor> \<le> y" and "y < rat_of_int \<lfloor>y\<rfloor> + 1"
    by linarith+
  then show ?thesis
    by (auto simp: round_even_def Let_def)
qed

lemma power_int_nat: "0 \<le> n \<Longrightarrow> power_int (2::rat) n = 2 ^ nat n"
  by (simp add: power_int_def)

lemma quotient_bits:
  assumes "quotient_of x = (p, q)" and "x \<noteq> 0"
  shows "power_int 2 (bitlen \<bar>p\<bar> - bitlen q - 1) \<le> \<bar>x\<bar>"
    and "\<bar>x\<bar> < power_int 2 (bitlen \<bar>p\<bar> - bitlen q + 1)"
proof -
  have q: "0 < q" using assms(1) by (rule quotient_of_denom_pos)
  have x: "x = rat_of_int p / rat_of_int q" using assms(1) by (rule quotient_of_div)
  have p: "0 < \<bar>p\<bar>" using x assms(2) by auto
  let ?bp = "bitlen \<bar>p\<bar>" and ?bq = "bitlen q"
  have bp: "2 ^ nat (?bp - 1) \<le> \<bar>p\<bar>" "\<bar>p\<bar> < 2 ^ nat ?bp"
    using bitlen_bounds [OF p] by auto
  have bq: "2 ^ nat (?bq - 1) \<le> q" "q < 2 ^ nat ?bq"
    using bitlen_bounds [OF q] by auto
  have bp1: "1 \<le> ?bp" using p by (simp add: bitlen_alt_def)
  have bq1: "1 \<le> ?bq" using q by (simp add: bitlen_alt_def)
  have rp: "(2::rat) ^ nat (?bp - 1) \<le> rat_of_int \<bar>p\<bar>" "rat_of_int \<bar>p\<bar> < 2 ^ nat ?bp"
    using bp
    by (metis of_int_le_iff of_int_numeral of_int_power,
        metis of_int_less_iff of_int_numeral of_int_power)
  have rq: "(2::rat) ^ nat (?bq - 1) \<le> rat_of_int q" "rat_of_int q < 2 ^ nat ?bq"
    using bq
    by (metis of_int_le_iff of_int_numeral of_int_power,
        metis of_int_less_iff of_int_numeral of_int_power)
  have ax: "\<bar>x\<bar> = rat_of_int \<bar>p\<bar> / rat_of_int q"
    using q by (simp add: x)
  have "power_int (2::rat) (?bp - ?bq - 1) = power_int 2 (?bp - 1) / power_int 2 ?bq"
    using power_int_diff [of "2::rat" "?bp - 1" ?bq] by (simp add: algebra_simps)
  also have "\<dots> = 2 ^ nat (?bp - 1) / 2 ^ nat ?bq"
    using bp1 bq1 by (simp add: power_int_nat)
  also have "\<dots> \<le> rat_of_int \<bar>p\<bar> / rat_of_int q"
    using rp(1) rq(2) q by (intro frac_le) auto
  finally show "power_int 2 (?bp - ?bq - 1) \<le> \<bar>x\<bar>" by (simp add: ax)
  have "rat_of_int \<bar>p\<bar> / rat_of_int q < 2 ^ nat ?bp / 2 ^ nat (?bq - 1)"
    using rp(2) rq(1) q p by (intro frac_less) auto
  also have "\<dots> = power_int 2 ?bp / power_int 2 (?bq - 1)"
    using bp1 bq1 by (simp add: power_int_nat)
  also have "\<dots> = power_int (2::rat) (?bp - ?bq + 1)"
    using power_int_diff [of "2::rat" ?bp "?bq - 1"] by (simp add: algebra_simps)
  finally show "\<bar>x\<bar> < power_int 2 (?bp - ?bq + 1)" by (simp add: ax)
qed

text \<open>\<open>binade\<close> is the binary exponent.\<close>

lemma binade_bounds:
  assumes "x \<noteq> 0"
  shows "power_int 2 (binade x) \<le> \<bar>x\<bar>" and "\<bar>x\<bar> < power_int 2 (binade x + 1)"
proof -
  obtain p q where pq: "quotient_of x = (p, q)" by (cases "quotient_of x")
  note b = quotient_bits [OF pq assms]
  show "power_int 2 (binade x) \<le> \<bar>x\<bar>"
    using b(1) by (simp add: binade_def pq Let_def)
  show "\<bar>x\<bar> < power_int 2 (binade x + 1)"
    using b(2) by (auto simp: binade_def pq Let_def not_le)
qed

text \<open>The error of one rounding, for a result of size at most \<open>B\<close>.\<close>

lemma fl_error:
  assumes "\<bar>x\<bar> \<le> B" and "1 \<le> B"
  shows "\<bar>fl x - x\<bar> \<le> B * unit_roundoff"
proof (cases "x = 0")
  case True
  then show ?thesis using assms(2) by (simp add: fl_def unit_roundoff_def)
next
  case False
  define e where "e = max (binade x) (- 1022)"
  define q where "q = power_int (2::rat) (e - 52)"
  have qpos: "0 < q" by (simp add: q_def)
  have flx: "fl x = rat_of_int (round_even (x / q)) * q"
    using False by (simp add: fl_def Let_def e_def q_def)
  have "fl x - x = (rat_of_int (round_even (x / q)) - x / q) * q"
    using qpos by (simp add: flx field_simps)
  then have "\<bar>fl x - x\<bar> = \<bar>rat_of_int (round_even (x / q)) - x / q\<bar> * q"
    using qpos by (simp add: abs_mult)
  also have "\<dots> \<le> 1 / 2 * q"
    using round_even_error [of "x / q"] qpos by (intro mult_right_mono) auto
  finally have err: "\<bar>fl x - x\<bar> \<le> q / 2" by simp
  have pe: "power_int (2::rat) e \<le> B"
  proof (cases "binade x \<ge> - 1022")
    case True
    then have "e = binade x" by (simp add: e_def)
    then show ?thesis using binade_bounds(1) [OF \<open>x \<noteq> 0\<close>] assms(1) by simp
  next
    case False
    then have "e = - 1022" by (simp add: e_def)
    then have "power_int (2::rat) e \<le> 1"
      by (simp add: power_int_def power_le_one)
    then show ?thesis using assms(2) by simp
  qed
  have "q = power_int 2 e / 2 ^ 52"
    using power_int_diff [of "2::rat" e 52] by (simp add: q_def)
  then have "q / 2 = power_int 2 e / 2 ^ 53" by simp
  also have "\<dots> \<le> B / 2 ^ 53" using pe by (simp add: divide_right_mono)
  finally show ?thesis using err by (simp add: unit_roundoff_def)
qed

lemma unit_roundoff_small: "0 < unit_roundoff" "unit_roundoff \<le> 1 / 1000"
  by (simp_all add: unit_roundoff_def)

section \<open>Scoring\<close>

lemma math_round_eq_iff:
  "math_round x = z \<longleftrightarrow> rat_of_int z \<le> x + 1 / 2 \<and> x + 1 / 2 < rat_of_int z + 1"
  by (simp add: math_round_def floor_eq_iff)

lemmas sample_defs = sample_world_def sample_places_def place_of_def sample_request_def
  sample_params_def sample_row_def sample_details_def
  sample_summary_def sample_analysis_def long_review_def short_review_def now0_def day_ms_def


text \<open>The rounding errors of the three terms, for signals within their ranges.\<close>

lemma rating_term_error:
  assumes "0 \<le> x" and "x \<le> 5"
  shows "\<bar>fl (fl (x / 5) * 50) - x / 5 * 50\<bar> \<le> 101 * unit_roundoff"
proof -
  note u = unit_roundoff_small
  have 1: "\<bar>fl (x / 5) - x / 5\<bar> \<le> 1 * unit_roundoff"
    using assms by (intro fl_error) auto
  have "\<bar>fl (x / 5) * 50\<bar> \<le> 51" using 1 assms u by (simp add: abs_le_iff) 
  then have 2: "\<bar>fl (fl (x / 5) * 50) - fl (x / 5) * 50\<bar> \<le> 51 * unit_roundoff"
    by (intro fl_error) auto
  show ?thesis using 1 2 by linarith
qed

lemma ai_term_error:
  assumes "0 \<le> k" and "k \<le> 100"
  shows "\<bar>fl (fl (k / 100) * 30) - k / 100 * 30\<bar> \<le> 61 * unit_roundoff"
proof -
  note u = unit_roundoff_small
  have 1: "\<bar>fl (k / 100) - k / 100\<bar> \<le> 1 * unit_roundoff"
    using assms by (intro fl_error) auto
  have "\<bar>fl (k / 100) * 30\<bar> \<le> 31" using 1 assms u by (simp add: abs_le_iff)
  then have 2: "\<bar>fl (fl (k / 100) * 30) - fl (k / 100) * 30\<bar> \<le> 31 * unit_roundoff"
    by (intro fl_error) auto
  show ?thesis using 1 2 by linarith
qed

lemma price_term_error:
  assumes "0 \<le> p" and "p \<le> 4" and "0 \<le> m" and "m \<le> 4"
  shows "\<bar>fl (fl (1 - fl (\<bar>fl (p - m)\<bar> / 4)) * 20) - (1 - \<bar>p - m\<bar> / 4) * 20\<bar>
           \<le> 141 * unit_roundoff"
proof -
  note u = unit_roundoff_small
  define G where "G = \<bar>fl (p - m)\<bar>"
  define P where "P = \<bar>p - m\<bar>"
  define h where "h = fl (G / 4)"
  define f where "f = fl (1 - h)"
  have P: "0 \<le> P" "P \<le> 4" using assms by (auto simp: P_def)
  have "\<bar>fl (p - m) - (p - m)\<bar> \<le> 4 * unit_roundoff"
    using assms by (intro fl_error) auto
  then have 1: "\<bar>G - P\<bar> \<le> 4 * unit_roundoff"
    unfolding G_def P_def by (rule order_trans [OF abs_triangle_ineq3])
  have G: "0 \<le> G" by (simp add: G_def)
  have "\<bar>G / 4\<bar> \<le> 2" using 1 P G u by linarith
  then have 2: "\<bar>h - G / 4\<bar> \<le> 2 * unit_roundoff"
    unfolding h_def by (intro fl_error) auto
  have hP: "\<bar>h - P / 4\<bar> \<le> 3 * unit_roundoff" using 1 2 by linarith
  have "\<bar>1 - h\<bar> \<le> 3" using hP P u by linarith
  then have 3: "\<bar>f - (1 - h)\<bar> \<le> 3 * unit_roundoff"
    unfolding f_def by (intro fl_error) auto
  have fP: "\<bar>f - (1 - P / 4)\<bar> \<le> 6 * unit_roundoff" using hP 3 by linarith
  have "\<bar>f * 20\<bar> \<le> 21" using fP P u by linarith
  then have 4: "\<bar>fl (f * 20) - f * 20\<bar> \<le> 21 * unit_roundoff"
    by (intro fl_error) auto
  have "\<bar>fl (f * 20) - (20 - 5 * P)\<bar> \<le> 141 * unit_roundoff"
    using fP 4 by linarith
  moreover have "(1 - P / 4) * 20 = 20 - 5 * P" by (simp add: algebra_simps)
  ultimately show ?thesis by (simp add: f_def h_def G_def P_def)
qed

text \<open>One \<open>totalScore += t\<close>, made or skipped.\<close>

lemma add_step_error:
  assumes "\<bar>s - S\<bar> \<le> a * unit_roundoff" and "made \<Longrightarrow> \<bar>t - T\<bar> \<le> b * unit_roundoff"
    and "\<not> made \<Longrightarrow> T = 0"
    and "0 \<le> S" and "0 \<le> T" and "S + T \<le> 100" and "0 \<le> a" and "0 \<le> b" and "a + b \<le> 1000"
  shows "\<bar>(if made then fl (s + t) else s) - (S + T)\<bar> \<le> (a + b + 102) * unit_roundoff"
proof (cases made)
  case True
  note u = unit_roundoff_small
  have t: "\<bar>t - T\<bar> \<le> b * unit_roundoff" using True assms(2) by simp
  have "(a + b) * unit_roundoff \<le> 1"
    using assms(7-9) u mult_mono [of "a + b" 1000 unit_roundoff "1 / 1000"] by simp
  then have "\<bar>s + t\<bar> \<le> 102" using assms(1,4-6) t by (simp add: algebra_simps; linarith)
  then have "\<bar>fl (s + t) - (s + t)\<bar> \<le> 102 * unit_roundoff"
    by (intro fl_error) auto
  then show ?thesis using True assms(1) t by (simp add: algebra_simps; linarith)
next
  case False
  note u = unit_roundoff_small
  have "0 \<le> (b + 102) * unit_roundoff" using assms(8) u by simp
  then show ?thesis using False assms(1,3) by (simp add: algebra_simps)
qed


text \<open>
  The double sum is within \<open>609 * 2^-53\<close> of the exact value of the formula, so it is
  rounded to the same integer when that value is clear of the ties.
\<close>

lemma totalScore_error:
  assumes "in_range max_price r" and "r_price_level r \<noteq> Some 0"
  shows "\<bar>totalScore max_price r - spec_total_score max_price r\<bar> \<le> 609 * unit_roundoff"
proof -
  define S1 where "S1 = (case r_rating r of None \<Rightarrow> 0 | Some x \<Rightarrow> x / 5 * 50)"
  define S2 where "S2 = (case r_ai_summary r of
          None \<Rightarrow> 0
        | Some a \<Rightarrow> (case v_rank_score a of NaN \<Rightarrow> 0 | Num k \<Rightarrow> k / 100 * 30))"
  define S3 where "S3 = spec_price_fit max_price (r_price_level r) * 20"
  define s1 where "s1 = (if has_rating r then fl (0 + rating_points r) else 0)"
  define s2 where "s2 = (if has_rank_score r then fl (s1 + ai_points r) else s1)"
  define s3 where "s3 = (if has_price_level r then fl (s2 + price_points max_price r) else s2)"
  have total: "totalScore max_price r = s3"
    by (simp add: totalScore_def Let_def s1_def s2_def s3_def)
  have spec: "spec_total_score max_price r = S1 + S2 + S3"
    by (simp add: spec_total_score_def S1_def S2_def S3_def)
  have t1: "has_rating r \<Longrightarrow> \<bar>rating_points r - S1\<bar> \<le> 101 * unit_roundoff"
    using assms(1) rating_term_error
    by (auto simp: in_range_def has_rating_def rating_points_def S1_def split: option.splits)
  have z1: "\<not> has_rating r \<Longrightarrow> S1 = 0"
    by (auto simp: has_rating_def S1_def split: option.splits)
  have b1: "0 \<le> S1" "S1 \<le> 50"
    using assms(1) by (auto simp: in_range_def S1_def split: option.splits)
  have t2: "has_rank_score r \<Longrightarrow> \<bar>ai_points r - S2\<bar> \<le> 61 * unit_roundoff"
    using assms(1) ai_term_error
    by (auto simp: in_range_def has_rank_score_def ai_points_def S2_def
        split: option.splits jsnum.splits)
  have z2: "\<not> has_rank_score r \<Longrightarrow> S2 = 0"
    by (auto simp: has_rank_score_def S2_def split: option.splits jsnum.splits)
  have b2: "0 \<le> S2" "S2 \<le> 30"
    using assms(1) by (auto simp: in_range_def S2_def split: option.splits jsnum.splits)
  have t3: "has_price_level r \<Longrightarrow> \<bar>price_points max_price r - S3\<bar> \<le> 141 * unit_roundoff"
    using assms(1) price_term_error
    by (auto simp: in_range_def has_price_level_def price_points_def S3_def spec_price_fit_def
        Let_def split: option.splits)
  have z3: "\<not> has_price_level r \<Longrightarrow> S3 = 0"
    using assms(2)
    by (auto simp: has_price_level_def S3_def spec_price_fit_def split: option.splits)
  have b3: "0 \<le> S3" "S3 \<le> 20"
    using assms(1)
    by (auto simp: in_range_def S3_def spec_price_fit_def split: option.splits)
  have e1: "\<bar>s1 - (0 + S1)\<bar> \<le> (0 + 101 + 102) * unit_roundoff"
    unfolding s1_def using t1 z1 b1 by (intro add_step_error) auto
  have e2: "\<bar>s2 - (S1 + S2)\<bar> \<le> (203 + 61 + 102) * unit_roundoff"
    unfolding s2_def using e1 t2 z2 b1 b2 by (intro add_step_error) auto
  have e3: "\<bar>s3 - (S1 + S2 + S3)\<bar> \<le> (366 + 141 + 102) * unit_roundoff"
    unfolding s3_def using e2 t3 z3 b1 b2 b3 by (intro add_step_error) auto
  show ?thesis using e3 by (simp add: total spec)
qed

lemma math_round_near:
  assumes "\<bar>s - x\<bar> \<le> 609 * unit_roundoff" and "clear_of_ties x"
  shows "math_round s = math_round x"
proof -
  let ?n = "\<lfloor>x + 1 / 2\<rfloor>"
  have u: "609 * unit_roundoff < 1 / 2 ^ 43" by (simp add: unit_roundoff_def)
  have f: "frac (x + 1 / 2) = x + 1 / 2 - rat_of_int ?n" by (simp add: frac_def)
  have lo: "rat_of_int ?n \<le> s + 1 / 2" and hi: "s + 1 / 2 < rat_of_int ?n + 1"
    using assms u unfolding clear_of_ties_def f by linarith+
  then have "\<lfloor>s + 1 / 2\<rfloor> = ?n" by (simp add: floor_eq_iff)
  then show ?thesis by (simp add: math_round_def)
qed

lemma score_is_rounded_formula:
  assumes "r_price_level r \<noteq> Some 0" and "in_range max_price r"
    and "clear_of_ties (spec_total_score max_price r)"
  shows "total_score (score max_price r) = math_round (spec_total_score max_price r)"
  using math_round_near [OF totalScore_error [OF assms(2,1)] assms(3)]
  by (simp add: score_def)


text \<open>
  C1, as the specification states it, fails: the handler rounds. With rating 4.5, rank
  score 77, price level 2 and \<open>max_price\<close> 2 the formula gives 88.1 and the handler
  returns 88.
\<close>

theorem total_score_unrounded_counterexample:
  "rat_of_int (total_score (score 2 (candidate (Some (9 / 2)) (Some (Num 77)) (Some 2))))
     \<noteq> spec_total_score 2 (candidate (Some (9 / 2)) (Some (Num 77)) (Some 2))"
  by code_simp

text \<open>
  Why the ties are excluded: with rating 3.3 (the double nearest to it), rank score 85,
  price level 1 and \<open>max_price\<close> 4 the double sum is 63.49999999999999 and the handler
  returns 63, while the formula gives exactly 63.5 on the decimal inputs, which rounds
  to 64.
\<close>

lemma double_sum_below_half:
  "total_score (score 4 (candidate (Some (fl (33 / 10))) (Some (Num 85)) (Some 1))) = 63
   \<and> math_round (spec_total_score 4 (candidate (Some (33 / 10)) (Some (Num 85)) (Some 1))) = 64
   \<and> \<not> clear_of_ties (spec_total_score 4 (candidate (Some (33 / 10)) (Some (Num 85)) (Some 1)))
   \<and> \<not> clear_of_ties
         (spec_total_score 4 (candidate (Some (fl (33 / 10))) (Some (Num 85)) (Some 1)))"
  by code_simp

text \<open>
  C1, amended: for a candidate whose price level is absent or is not 0, with every
  signal and \<open>max_price\<close> within its range, \<open>total_score\<close> is \<open>Math.round\<close> of the sum
  that the handler computes in double arithmetic, and this is the formula of the
  specification rounded to the nearest integer whenever the exact value of the formula
  is at least \<open>2^-43\<close> away from every \<open>k + 1/2\<close>; an absent signal adds 0 and nothing
  fails. Rating 5, rank score 80, price level 2, \<open>max_price\<close> 2 give 94; rating 3, no
  summary, price level 4, \<open>max_price\<close> 1 give 35.
\<close>

theorem total_score_rounded_formula:
  assumes "r_price_level r \<noteq> Some 0" and "in_range max_price r"
    and "clear_of_ties (spec_total_score max_price r)"
  shows "total_score (score max_price r) = math_round (spec_total_score max_price r)
     \<and> total_score (score 2 (candidate (Some 5) (Some (Num 80)) (Some 2))) = 94
     \<and> total_score (score 1 (candidate (Some 3) None (Some 4))) = 35"
proof -
  have "total_score (score max_price r) = math_round (spec_total_score max_price r)"
    using assms by (rule score_is_rounded_formula)
  moreover have "total_score (score 2 (candidate (Some 5) (Some (Num 80)) (Some 2))) = 94"
    by code_simp
  moreover have "total_score (score 1 (candidate (Some 3) None (Some 4))) = 35"
    by code_simp
  ultimately show ?thesis by simp
qed

theorem total_score_rounded_formula_witness:
  "r_price_level (candidate (Some (9 / 2)) (Some (Num 77)) (Some 2)) \<noteq> Some 0
   \<and> in_range 2 (candidate (Some (9 / 2)) (Some (Num 77)) (Some 2))
   \<and> clear_of_ties (spec_total_score 2 (candidate (Some (9 / 2)) (Some (Num 77)) (Some 2)))
   \<and> total_score (score 2 (candidate (Some (9 / 2)) (Some (Num 77)) (Some 2))) = 88
   \<and> spec_total_score 2 (candidate (Some (9 / 2)) (Some (Num 77)) (Some 2)) = 881 / 10"
proof -
  let ?c = "candidate (Some (9 / 2)) (Some (Num 77)) (Some 2)"
  have 1: "r_price_level ?c \<noteq> Some 0" by (simp add: candidate_def)
  have 2: "in_range 2 ?c" by (simp add: candidate_def in_range_def)
  have 3: "clear_of_ties (spec_total_score 2 ?c)" by code_simp
  have 4: "spec_total_score 2 ?c = 881 / 10"
    by (simp add: spec_total_score_def spec_price_fit_def candidate_def)
  have 5: "math_round (881 / 10) = 88" by code_simp
  show ?thesis
    using 1 2 3 total_score_rounded_formula [OF 1 2 3] by (simp add: 4 5)
qed

text \<open>
  C10: a price level of 0 adds nothing to the score, whatever \<open>max_price\<close> is, and the
  candidate scores as one without a price level. With \<open>max_price\<close> 0 the score is 0
  where the price-fit formula would give 20 points.
\<close>

theorem price_level_zero_contributes_nothing:
  "price_points max_price (r\<lparr>r_price_level := Some 0\<rparr>) = 0
   \<and> total_score (score max_price (r\<lparr>r_price_level := Some 0\<rparr>))
       = total_score (score max_price (r\<lparr>r_price_level := None\<rparr>))
   \<and> total_score (score 0 (candidate None None (Some 0))) = 0
   \<and> spec_price_fit 0 (Some 0) * 20 = 20"
proof -
  have 1: "price_points max_price (r\<lparr>r_price_level := Some 0\<rparr>) = 0"
    by (simp add: price_points_def)
  have "totalScore max_price (r\<lparr>r_price_level := Some 0\<rparr>)
          = totalScore max_price (r\<lparr>r_price_level := None\<rparr>)"
    by (simp add: totalScore_def rating_points_def ai_points_def has_rating_def
        has_rank_score_def has_price_level_def)
  then have 2: "total_score (score max_price (r\<lparr>r_price_level := Some 0\<rparr>))
                  = total_score (score max_price (r\<lparr>r_price_level := None\<rparr>))"
    by (simp add: score_def)
  have 3: "total_score (score 0 (candidate None None (Some 0))) = 0"
    by code_simp
  have 4: "spec_price_fit 0 (Some 0) * 20 = 20"
    by (simp add: spec_price_fit_def)
  show ?thesis
    using 1 2 3 4 by (intro conjI)
qed

section \<open>Ranking and the response\<close>

lemma insert_by_insort_key:
  "insert_by by_total_score x ys = insort_key (\<lambda>r. - total_score r) x ys"
  by (induction ys) (simp_all add: by_total_score_def)

lemma sort_by_sort_key:
  "sort_by by_total_score xs = sort_key (\<lambda>r. - total_score r) xs"
  by (induction xs) (simp_all add: sort_by_def sort_key_def insert_by_insort_key)

lemma rankedRestaurants_sorted:
  "sorted_wrt (\<lambda>a b. total_score a \<ge> total_score b) (rankedRestaurants max_price rs)"
proof -
  have "sorted (map (\<lambda>r. - total_score r) (rankedRestaurants max_price rs))"
    by (simp add: rankedRestaurants_def sort_by_sort_key)
  then show ?thesis by (simp add: sorted_map)
qed

lemma rankedRestaurants_stable:
  "filter (\<lambda>a. total_score a = k) (rankedRestaurants max_price rs)
     = filter (\<lambda>a. total_score a = k) (map (score max_price) rs)"
proof -
  have "filter (\<lambda>a. - total_score a = - k) (rankedRestaurants max_price rs)
     = filter (\<lambda>a. - total_score a = - k) (map (score max_price) rs)"
    unfolding rankedRestaurants_def sort_by_sort_key by (rule sort_key_stable)
  then show ?thesis by simp
qed

lemma set_rankedRestaurants:
  "set (rankedRestaurants max_price rs) = score max_price ` set rs"
  by (simp add: rankedRestaurants_def sort_by_sort_key)

lemma length_rankedRestaurants:
  "length (rankedRestaurants max_price rs) = length rs"
  by (simp add: rankedRestaurants_def sort_by_sort_key)

lemma map_filter_map: "List.map_filter f (map g xs) = List.map_filter (\<lambda>x. f (g x)) xs"
  by (induction xs) (simp_all add: map_filter_simps split: option.splits)


text \<open>When the first 25 elements are objects, no promise is rejected.\<close>

lemma promise_all_objects:
  "promise_all (map (\<lambda>p. fst (process_entry w key (Some p))) places)
     = Returns (map (\<lambda>p. fst (process_place w key p)) places)"
  by (induction places) (simp_all add: process_entry_def)

lemma enrich_objects:
  assumes "take 25 ps = map Some places"
  shows "enrich w key ps =
     (Inr (List.map_filter (\<lambda>p. fst (process_place w key p)) places),
      concat (map (\<lambda>p. snd (process_place w key p)) places))"
proof -
  have 1: "map fst (map (process_entry w key) (map Some places))
             = map (\<lambda>p. fst (process_entry w key (Some p))) places"
    by simp
  have 2: "map snd (map (process_entry w key) (map Some places))
             = map (\<lambda>p. snd (process_place w key p)) places"
    by (simp add: process_entry_def)
  show ?thesis
    unfolding enrich_def Let_def assms 1 2 promise_all_objects
    by (simp add: map_filter_map)
qed

text \<open>A \<open>null\<close> among the first 25 elements rejects \<open>Promise.all\<close>.\<close>

lemma promise_all_rejected:
  assumes "Throws m \<in> set xs" and "\<forall>m'. Throws m' \<in> set xs \<longrightarrow> m' = m"
  shows "promise_all xs = Throws m"
  using assms
proof (induction xs)
  case Nil
  then show ?case by simp
next
  case (Cons x xs)
  show ?case
  proof (cases x)
    case (Throws m')
    then have "m' = m" using Cons.prems(2) by simp
    then show ?thesis using Throws by simp
  next
    case (Returns y)
    then have 1: "Throws m \<in> set xs" using Cons.prems(1) by simp
    have 2: "\<forall>m'. Throws m' \<in> set xs \<longrightarrow> m' = m" using Cons.prems(2) by simp
    show ?thesis using Cons.IH [OF 1 2] Returns by simp
  qed
qed

lemma enrich_null:
  assumes "None \<in> set (take 25 ps)"
  shows "fst (enrich w key ps) = Inl (Exception null_place_message)"
proof -
  let ?xs = "map fst (map (process_entry w key) (take 25 ps))"
  have "process_entry w key None \<in> set (map (process_entry w key) (take 25 ps))"
    using assms by simp
  then have "fst (process_entry w key None) \<in> set ?xs"
    by (simp only: set_map image_eqI)
  then have 1: "Throws null_place_message \<in> set ?xs"
    by (simp add: process_entry_def)
  have 2: "\<forall>m'. Throws m' \<in> set ?xs \<longrightarrow> m' = null_place_message"
  proof (intro allI impI)
    fix m' assume "Throws m' \<in> set ?xs"
    then obtain e where "e \<in> set (take 25 ps)" and e: "fst (process_entry w key e) = Throws m'"
      by (auto simp: image_iff)
    show "m' = null_place_message"
      using e by (cases e) (simp_all add: process_entry_def)
  qed
  show ?thesis
    unfolding enrich_def Let_def promise_all_rejected [OF 1 2] by simp
qed

lemma search_success:
  assumes "\<not> falsy_key (GOOGLE_PLACES_API_KEY w)" and "\<not> falsy_key (GEMINI_API_KEY w)"
    and "json req = Returns params"
    and "resolve_location w (p_location params) = (Inr coords, evs1)"
    and "search_places w coords (radius_of params) (max_price_of params) = (Inr ps, evs2)"
    and "enrich w (googleApiKey w) ps = (Inr rs, evs3)"
  shows "search w req =
     (Inr (rankedRestaurants (max_price_of params) rs, coords), evs1 @ evs2 @ evs3)"
  using assms by (simp add: search_def)

lemma search_places_failure:
  assumes "\<not> falsy_key (GOOGLE_PLACES_API_KEY w)" and "\<not> falsy_key (GEMINI_API_KEY w)"
    and "json req = Returns params"
    and "resolve_location w (p_location params) = (Inr coords, evs1)"
    and "search_places w coords (radius_of params) (max_price_of params) = (Inl e, evs2)"
  shows "search w req = (Inl e, evs1 @ evs2)"
  using assms by (simp add: search_def)

lemma serve_search:
  "req_method req \<noteq> ''OPTIONS'' \<Longrightarrow> search w req = (Inr (ranked, coords), evs) \<Longrightarrow>
   serve w req =
     (\<lparr>status = 200,
       body = Some \<lparr>error = None, restaurants = ranked, search_location = Some coords,
                    total_found = length ranked\<rparr>\<rparr>, evs)"
  by (simp add: serve_def)

lemma serve_failure:
  "req_method req \<noteq> ''OPTIONS'' \<Longrightarrow> search w req = (Inl e, evs) \<Longrightarrow>
   serve w req =
     (\<lparr>status = 500,
       body = Some \<lparr>error = Some (message e), restaurants = [], search_location = None,
                    total_found = 0\<rparr>\<rparr>, evs)"
  by (simp add: serve_def)

text \<open>
  C8: when the nearby search returns a status other than \<open>OK\<close>, the request is aborted
  before any candidate is processed: the response has status 500, its body carries the
  error message, \<open>restaurants: []\<close> and \<open>total_found: 0\<close>, and the only calls made are
  those of the location step and the search itself.
\<close>

theorem places_failure_aborts:
  assumes "req_method req \<noteq> ''OPTIONS''"
    and "\<not> falsy_key (GOOGLE_PLACES_API_KEY w)" and "\<not> falsy_key (GEMINI_API_KEY w)"
    and "json req = Returns params"
    and "resolve_location w (p_location params) = (Inr coords, evs1)"
    and "nearbysearch w coords (radius_of params)
           (if max_price_of params < 4 then Some (max_price_of params) else None)
         = Returns placesData"
    and "ps_status placesData \<noteq> ''OK''"
  shows "serve w req =
     (\<lparr>status = 500,
       body = Some \<lparr>error = Some (''Places API error: '' @ ps_status placesData),
                    restaurants = [], search_location = None, total_found = 0\<rparr>\<rparr>,
      evs1 @ [NearbySearch coords (radius_of params)
                (if max_price_of params < 4 then Some (max_price_of params) else None)])"
proof -
  have "search_places w coords (radius_of params) (max_price_of params)
      = (Inl (PlacesSearchError (ps_status placesData)),
         [NearbySearch coords (radius_of params)
            (if max_price_of params < 4 then Some (max_price_of params) else None)])"
    using assms(6,7) by (simp add: search_places_def Let_def)
  then have "search w req = (Inl (PlacesSearchError (ps_status placesData)),
      evs1 @ [NearbySearch coords (radius_of params)
            (if max_price_of params < 4 then Some (max_price_of params) else None)])"
    using assms(2-5) by (rule search_places_failure[rotated -1])
  then show ?thesis using assms(1) by (simp add: serve_failure)
qed

lemma resolve_1_2: "resolve_location w ''1,2'' = (Inr \<lparr>lat = 1, lng = 2\<rparr>, [])"
  by code_simp

lemma resolve_2_2: "resolve_location w ''2,2'' = (Inr \<lparr>lat = 2, lng = 2\<rparr>, [])"
  by code_simp

theorem places_failure_aborts_witness:
  "fst (serve sample_world (sample_request ''2,2'')) =
     \<lparr>status = 500,
       body = Some \<lparr>error = Some ''Places API error: OVER_QUERY_LIMIT'',
                    restaurants = [], search_location = None, total_found = 0\<rparr>\<rparr>
   \<and> snd (serve sample_world (sample_request ''2,2''))
       = [NearbySearch \<lparr>lat = 2, lng = 2\<rparr> 5000 (Some 2)]"
proof -
  let ?params = "sample_params ''2,2''"
  have 1: "req_method (sample_request ''2,2'') \<noteq> ''OPTIONS''"
    by (simp add: sample_request_def)
  have 2: "\<not> falsy_key (GOOGLE_PLACES_API_KEY sample_world)"
    by (simp add: sample_world_def falsy_key_def)
  have 3: "\<not> falsy_key (GEMINI_API_KEY sample_world)"
    by (simp add: sample_world_def falsy_key_def)
  have 4: "json (sample_request ''2,2'') = Returns ?params"
    by (simp add: sample_request_def)
  have 5: "resolve_location sample_world (p_location ?params) = (Inr \<lparr>lat = 2, lng = 2\<rparr>, [])"
    by (simp add: resolve_2_2 sample_params_def)
  have 6: "nearbysearch sample_world \<lparr>lat = 2, lng = 2\<rparr> (radius_of ?params)
           (if max_price_of ?params < 4 then Some (max_price_of ?params) else None)
         = Returns \<lparr>ps_status = ''OVER_QUERY_LIMIT'', ps_results = []\<rparr>"
    by (simp add: sample_world_def)
  have 7: "ps_status \<lparr>ps_status = ''OVER_QUERY_LIMIT'', ps_results = []\<rparr> \<noteq> ''OK''"
    by simp
  show ?thesis
    using places_failure_aborts [OF 1 2 3 4 5 6 7]
    by (simp add: radius_of_def max_price_of_def sample_params_def)
qed

lemma serve_success:
  assumes "req_method req \<noteq> ''OPTIONS''"
    and "\<not> falsy_key (GOOGLE_PLACES_API_KEY w)" and "\<not> falsy_key (GEMINI_API_KEY w)"
    and "json req = Returns params"
    and "resolve_location w (p_location params) = (Inr coords, evs1)"
    and "search_places w coords (radius_of params) (max_price_of params) = (Inr ps, evs2)"
    and "enrich w (googleApiKey w) ps = (Inr rs, evs3)"
  shows "serve w req =
     (\<lparr>status = 200,
       body = Some \<lparr>error = None,
                    restaurants = rankedRestaurants (max_price_of params) rs,
                    search_location = Some coords,
                    total_found = length rs\<rparr>\<rparr>,
      evs1 @ evs2 @ evs3)"
  using serve_search [OF assms(1) search_success [OF assms(2-7)]]
  by (simp add: length_rankedRestaurants)

text \<open>Every entry of a successful response carries the score of its own restaurant.\<close>

lemma response_entries_scored:
  assumes "req_method req \<noteq> ''OPTIONS''"
    and "\<not> falsy_key (GOOGLE_PLACES_API_KEY w)" and "\<not> falsy_key (GEMINI_API_KEY w)"
    and "json req = Returns params"
    and "resolve_location w (p_location params) = (Inr coords, evs1)"
    and "search_places w coords (radius_of params) (max_price_of params) = (Inr ps, evs2)"
    and "enrich w (googleApiKey w) ps = (Inr rs, evs3)"
    and "x \<in> set (restaurants_of (fst (serve w req)))"
  shows "x = score (max_price_of params) (entry x)"
proof -
  have "x \<in> score (max_price_of params) ` set rs"
    using assms(8)
    by (simp add: serve_success [OF assms(1-7)] restaurants_of_def set_rankedRestaurants)
  then show ?thesis by (auto simp: score_def)
qed

text \<open>
  A response with status 200 comes from a request that passed the location step and
  the nearby search and in which no promise of a candidate was rejected.
\<close>

lemma success_needs_both_stages:
  assumes "status (fst (serve w req)) = 200" and "req_method req \<noteq> ''OPTIONS''"
  shows "\<not> falsy_key (GOOGLE_PLACES_API_KEY w) \<and> \<not> falsy_key (GEMINI_API_KEY w)
     \<and> (\<exists>params coords evs1 ps evs2 rs evs3.
           json req = Returns params
           \<and> resolve_location w (p_location params) = (Inr coords, evs1)
           \<and> search_places w coords (radius_of params) (max_price_of params) = (Inr ps, evs2)
           \<and> enrich w (googleApiKey w) ps = (Inr rs, evs3))"
  using assms
  by (auto simp: serve_def search_def split: if_splits prod.splits sum.splits outcome.splits)

section \<open>Failures of a candidate\<close>

lemma get_aiSummary_events:
  "e \<in> set (snd (get_aiSummary w rd)) \<Longrightarrow>
     e = SelectSummary (rd_place_id rd)
     \<or> (\<exists>texts. e = Summarize (rd_place_id rd) texts)
     \<or> (\<exists>a. e = UpsertSummary a)"
  by (auto simp: get_aiSummary_def generate_summary_def Let_def
      split: outcome.splits option.splits geminiData.splits if_splits)


lemma process_place_hit:
  assumes "get_restaurantData w key p = (Some rd, evs)"
  shows "process_place w key p =
     (case fst (get_aiSummary w rd) of
        Throws m \<Rightarrow> None
      | Returns a \<Rightarrow> Some (make_restaurant rd a),
      evs @ snd (get_aiSummary w rd))"
  using assms by (simp add: process_place_def split: prod.splits outcome.splits)









section \<open>The candidates and the request\<close>






text \<open>
  C6: in a successful response the restaurants are in descending order of
  \<open>total_score\<close>, and candidates with the same \<open>total_score\<close> are in the order in which
  the enrichment stage produced them.
\<close>

theorem response_sorted_stable:
  assumes "req_method req \<noteq> ''OPTIONS''"
    and "\<not> falsy_key (GOOGLE_PLACES_API_KEY w)" and "\<not> falsy_key (GEMINI_API_KEY w)"
    and "json req = Returns params"
    and "resolve_location w (p_location params) = (Inr coords, evs1)"
    and "search_places w coords (radius_of params) (max_price_of params) = (Inr ps, evs2)"
    and "enrich w (googleApiKey w) ps = (Inr rs, evs3)"
  shows "sorted_wrt (\<lambda>a b. total_score a \<ge> total_score b) (restaurants_of (fst (serve w req)))
     \<and> (\<forall>k. filter (\<lambda>a. total_score a = k) (restaurants_of (fst (serve w req)))
            = filter (\<lambda>a. total_score a = k) (map (score (max_price_of params)) rs))"
  by (simp add: serve_success [OF assms] restaurants_of_def rankedRestaurants_sorted
      rankedRestaurants_stable)

lemma sample_hyps:
  "req_method (sample_request ''1,2'') \<noteq> ''OPTIONS''"
  "\<not> falsy_key (GOOGLE_PLACES_API_KEY sample_world)"
  "\<not> falsy_key (GEMINI_API_KEY sample_world)"
  "json (sample_request ''1,2'') = Returns (sample_params ''1,2'')"
  "resolve_location sample_world (p_location (sample_params ''1,2'')) = (Inr \<lparr>lat = 1, lng = 2\<rparr>, [])"
  "search_places sample_world \<lparr>lat = 1, lng = 2\<rparr> (radius_of (sample_params ''1,2'')) (max_price_of (sample_params ''1,2''))
     = (Inr sample_places, [NearbySearch \<lparr>lat = 1, lng = 2\<rparr> 5000 (Some 2)])"
  by code_simp+

lemma sample_objects:
  "take 25 sample_places
     = map Some [place_of ''A'', place_of ''B'', place_of ''C'', place_of ''D'', place_of ''F'']"
  by (simp add: sample_places_def)

lemma sample_ties:
  "map (\<lambda>x. r_place_id (entry x))
     (filter (\<lambda>a. total_score a = 60)
        (map (score (max_price_of (sample_params ''1,2'')))
           (List.map_filter (\<lambda>p. fst (process_place sample_world (googleApiKey sample_world) p))
              [place_of ''A'', place_of ''B'', place_of ''C'', place_of ''D'', place_of ''F''])))
   = [''D'', ''F'']"
  by code_simp

theorem response_sorted_stable_witness:
  "sorted_wrt (\<lambda>a b. total_score a \<ge> total_score b)
     (restaurants_of (fst (serve sample_world (sample_request ''1,2''))))
   \<and> map (\<lambda>x. r_place_id (entry x))
        (filter (\<lambda>a. total_score a = 60)
           (restaurants_of (fst (serve sample_world (sample_request ''1,2'')))))
      = [''D'', ''F'']"
proof -
  note th = response_sorted_stable [OF sample_hyps enrich_objects [OF sample_objects]]
  show ?thesis
    using th [THEN conjunct1] sample_ties
    by (simp only: th [THEN conjunct2, rule_format, of 60] simp_thms)
qed

text \<open>
  C4: for a place with a cached row. If the row is less than 24 hours old, the row is
  used and the details are not fetched for that place. If the row is 24 hours and one
  second old, it is a miss: the details are fetched, and when they arrive (status \<open>OK\<close>,
  with a geometry) the new row is upserted.
\<close>

theorem cached_restaurant_freshness:
  assumes "restaurants_row w (pl_place_id p) = Returns (Some row)"
  shows "(clock w (RestaurantCheck (pl_place_id p)) - rd_cached_at row < day_ms \<longrightarrow>
            get_restaurantData w key p = (Some row, [SelectRestaurant (pl_place_id p)])
            \<and> FetchDetails (pl_place_id p) \<notin> set (snd (process_place w key p))
            \<and> (\<forall>r. fst (process_place w key p) = Some r \<longrightarrow> (\<exists>a. r = make_restaurant row a)))
     \<and> (clock w (RestaurantCheck (pl_place_id p)) - rd_cached_at row = day_ms + 1000 \<longrightarrow>
            get_restaurantData w key p
              = (fst (fetch_details w key p),
                 SelectRestaurant (pl_place_id p) # snd (fetch_details w key p))
            \<and> FetchDetails (pl_place_id p) \<in> set (snd (process_place w key p))
            \<and> (\<forall>d rd. details w (pl_place_id p) = Returns \<lparr>dd_status = ''OK'', dd_result = Some d\<rparr>
                  \<and> make_restaurantData key (clock w (RestaurantWrite (pl_place_id p))) d = Some rd
                  \<longrightarrow> UpsertRestaurant rd \<in> set (snd (process_place w key p))))"
proof (intro conjI impI)
  assume fresh: "clock w (RestaurantCheck (pl_place_id p)) - rd_cached_at row < day_ms"
  show hit: "get_restaurantData w key p = (Some row, [SelectRestaurant (pl_place_id p)])"
    using assms fresh by (simp add: get_restaurantData_def fresh_restaurant_def)
  show "FetchDetails (pl_place_id p) \<notin> set (snd (process_place w key p))"
    using get_aiSummary_events [of "FetchDetails (pl_place_id p)" w row]
    by (auto simp: process_place_hit [OF hit])
  show "\<forall>r. fst (process_place w key p) = Some r \<longrightarrow> (\<exists>a. r = make_restaurant row a)"
    by (auto simp: process_place_hit [OF hit] split: outcome.splits)
next
  assume stale: "clock w (RestaurantCheck (pl_place_id p)) - rd_cached_at row = day_ms + 1000"
  show miss: "get_restaurantData w key p
              = (fst (fetch_details w key p),
                 SelectRestaurant (pl_place_id p) # snd (fetch_details w key p))"
    using assms stale by (simp add: get_restaurantData_def fresh_restaurant_def split_beta)
  have fetched: "FetchDetails (pl_place_id p) \<in> set (snd (fetch_details w key p))"
    by (simp add: fetch_details_def Let_def split: outcome.splits option.splits)
  have sub: "set (snd (get_restaurantData w key p)) \<subseteq> set (snd (process_place w key p))"
    by (auto simp: process_place_def split: prod.splits option.splits outcome.splits)
  show "FetchDetails (pl_place_id p) \<in> set (snd (process_place w key p))"
    using fetched sub by (auto simp: miss)
  show "\<forall>d rd. details w (pl_place_id p) = Returns \<lparr>dd_status = ''OK'', dd_result = Some d\<rparr>
                  \<and> make_restaurantData key (clock w (RestaurantWrite (pl_place_id p))) d = Some rd
                  \<longrightarrow> UpsertRestaurant rd \<in> set (snd (process_place w key p))"
  proof (intro allI impI)
    fix d rd
    assume h: "details w (pl_place_id p) = Returns \<lparr>dd_status = ''OK'', dd_result = Some d\<rparr>
                  \<and> make_restaurantData key (clock w (RestaurantWrite (pl_place_id p))) d = Some rd"
    then have "UpsertRestaurant rd \<in> set (snd (fetch_details w key p))"
      by (simp add: fetch_details_def Let_def split: outcome.splits)
    then show "UpsertRestaurant rd \<in> set (snd (process_place w key p))"
      using sub by (auto simp: miss)
  qed
qed

theorem cached_restaurant_freshness_witness:
  "get_restaurantData sample_world ''g'' (place_of ''A'')
     = (Some (sample_row ''A'' 4 2 [long_review] (now0 - 1000)), [SelectRestaurant ''A''])
   \<and> FetchDetails ''A'' \<notin> set (snd (process_place sample_world ''g'' (place_of ''A'')))
   \<and> FetchDetails ''D'' \<in> set (snd (process_place sample_world ''g'' (place_of ''D'')))
   \<and> UpsertRestaurant (sample_row ''D'' 4 2 [short_review] now0)
        \<in> set (snd (process_place sample_world ''g'' (place_of ''D'')))"
proof -
  have a: "restaurants_row sample_world (pl_place_id (place_of ''A''))
             = Returns (Some (sample_row ''A'' 4 2 [long_review] (now0 - 1000)))"
    by (simp add: sample_world_def place_of_def)
  have a_fresh: "clock sample_world (RestaurantCheck (pl_place_id (place_of ''A'')))
                   - rd_cached_at (sample_row ''A'' 4 2 [long_review] (now0 - 1000)) < day_ms"
    by (simp add: sample_world_def sample_row_def day_ms_def)
  have d: "restaurants_row sample_world (pl_place_id (place_of ''D''))
             = Returns (Some (sample_row ''D'' 3 4 [long_review] (now0 - day_ms - 1000)))"
    by (simp add: sample_world_def place_of_def)
  have d_stale: "clock sample_world (RestaurantCheck (pl_place_id (place_of ''D'')))
                   - rd_cached_at (sample_row ''D'' 3 4 [long_review] (now0 - day_ms - 1000))
                 = day_ms + 1000"
    by (simp add: sample_world_def sample_row_def)
  have d_details: "details sample_world (pl_place_id (place_of ''D''))
       = Returns \<lparr>dd_status = ''OK'', dd_result = Some (sample_details ''D'' 4 2 [short_review])\<rparr>"
    by (simp add: sample_world_def place_of_def)
  have d_row: "make_restaurantData ''g''
        (clock sample_world (RestaurantWrite (pl_place_id (place_of ''D''))))
        (sample_details ''D'' 4 2 [short_review])
      = Some (sample_row ''D'' 4 2 [short_review] now0)"
    by (simp add: make_restaurantData_def sample_details_def sample_row_def sample_world_def)
  show ?thesis
    using cached_restaurant_freshness [OF a, of "''g''"] a_fresh
      cached_restaurant_freshness [OF d, of "''g''"] d_stale d_details d_row
    by (simp add: place_of_def)
qed

section \<open>Reviews and the summary\<close>





section \<open>The location\<close>

text \<open>
  C3, as the specification states it, fails: \<open>abc,def\<close> does not match the coordinate
  pattern, so it is sent to the geocoder, and the failure is the geocoder's.
\<close>

theorem malformed_location_counterexample:
  "resolve_location sample_world ''abc,def''
     = (Inl (LocationNotFound ''abc,def''), [Geocode ''abc,def''])"
  by (simp add: resolve_location_def str_includes_def coordinate_pattern_def number_pattern_def
      skip_char_def isDigit_def trim_def isSpace_def geocode_address_def geocode_failure_def
      sample_world_def)

text \<open>
  C3, amended: a location string that does not match the coordinate pattern, such as
  \<open>abc,def\<close>, is looked up with the geocoding provider; the outcome is the provider's
  (\<open>LocationNotFound\<close> on \<open>ZERO_RESULTS\<close>, \<open>GeocodingError\<close> on another status that is
  not \<open>OK\<close>) and never \<open>InvalidCoordinates\<close>.
\<close>

theorem malformed_location_is_geocoded:
  assumes "\<not> coordinate_pattern (trim loc)"
  shows "resolve_location w loc = (geocode_address w loc, [Geocode loc])
     \<and> geocode_address w loc \<noteq> Inl InvalidCoordinates
     \<and> (\<forall>g. geocode w loc = Returns g \<and> gc_status g \<noteq> ''OK'' \<longrightarrow>
           geocode_address w loc
             = Inl (if gc_status g = ''ZERO_RESULTS'' then LocationNotFound loc
                    else GeocodingError (gc_status g)))"
  using assms
  by (auto simp: resolve_location_def geocode_address_def geocode_failure_def
      split: outcome.splits list.splits)

theorem malformed_location_is_geocoded_witness:
  "\<not> coordinate_pattern (trim ''abc,def'')
   \<and> snd (resolve_location sample_world ''abc,def'') = [Geocode ''abc,def'']
   \<and> geocode_address sample_world ''abc,def'' = Inl (LocationNotFound ''abc,def'')"
proof -
  have h: "\<not> coordinate_pattern (trim ''abc,def'')"
    by (simp add: coordinate_pattern_def number_pattern_def skip_char_def isDigit_def trim_def
        isSpace_def)
  have g: "geocode sample_world ''abc,def'' = Returns \<lparr>gc_status = ''ZERO_RESULTS'', gc_results = []\<rparr>"
    by (simp add: sample_world_def)
  show ?thesis
    using h malformed_location_is_geocoded [OF h, of sample_world] g by simp
qed

text \<open>
  The \<open>isNaN\<close> test of line 85 never fires: a string that passes the pattern has two
  parts that \<open>parseFloat\<close> reads as numbers, so no location at all fails with
  \<open>InvalidCoordinates\<close>.
\<close>

lemma digit_facts:
  "isDigit c \<Longrightarrow> \<not> isSpace c \<and> c \<noteq> CHR '','' \<and> c \<noteq> CHR ''-'' \<and> c \<noteq> CHR ''+'' \<and> c \<noteq> CHR ''.''"
  by (auto simp: isDigit_def isSpace_def)

lemma space_not_comma: "isSpace c \<Longrightarrow> c \<noteq> CHR '',''"
  by (auto simp: isSpace_def)

lemma skip_char_decomp:
  obtains pre where "pre @ skip_char c s = s" and "pre = [] \<or> pre = [c]"
proof (cases "s \<noteq> [] \<and> hd s = c")
  case True
  then have "[c] @ skip_char c s = s" by (cases s) (simp_all add: skip_char_def)
  then show ?thesis using that by blast
next
  case False
  then have "[] @ skip_char c s = s" by (cases s) (simp_all add: skip_char_def)
  then show ?thesis using that by blast
qed

lemma number_pattern_decomp:
  assumes "number_pattern s = Some r"
  shows "\<exists>n. s = n @ r \<and> CHR '','' \<notin> set n \<and> starts_number n \<and> (\<forall>c \<in> set n. \<not> isSpace c)"
proof -
  define s1 where "s1 = skip_char (CHR ''-'') s"
  define r1 where "r1 = dropWhile isDigit s1"
  define r2 where "r2 = skip_char (CHR ''.'') r1"
  from assms have ne: "takeWhile isDigit s1 \<noteq> []" and r: "r = dropWhile isDigit r2"
    by (auto simp: number_pattern_def Let_def s1_def r1_def r2_def split: if_splits)
  obtain p1 where p1: "p1 @ s1 = s" "p1 = [] \<or> p1 = [CHR ''-'']"
    unfolding s1_def by (rule skip_char_decomp)
  obtain p2 where p2: "p2 @ r2 = r1" "p2 = [] \<or> p2 = [CHR ''.'']"
    unfolding r2_def by (rule skip_char_decomp)
  let ?d1 = "takeWhile isDigit s1" and ?d2 = "takeWhile isDigit r2"
  let ?n = "p1 @ ?d1 @ p2 @ ?d2"
  have s1: "?d1 @ r1 = s1" by (simp add: r1_def)
  have r2: "?d2 @ r = r2" by (simp add: r)
  have "?n @ r = p1 @ ?d1 @ p2 @ (?d2 @ r)" by simp
  also have "\<dots> = p1 @ ?d1 @ (p2 @ r2)" by (simp only: r2)
  also have "\<dots> = p1 @ (?d1 @ r1)" by (simp only: p2(1))
  also have "\<dots> = s" by (simp only: s1 p1(1))
  finally have eq: "s = ?n @ r" by (rule sym)
  have d1: "\<forall>c \<in> set ?d1. isDigit c" and d2: "\<forall>c \<in> set ?d2. isDigit c"
    by (auto dest: set_takeWhileD)
  have p1_chars: "\<forall>c \<in> set p1. c = CHR ''-''" using p1(2) by auto
  have p2_chars: "\<forall>c \<in> set p2. c = CHR ''.''" using p2(2) by auto
  have chars: "\<forall>c \<in> set ?n. c = CHR ''-'' \<or> c = CHR ''.'' \<or> isDigit c"
    using p1_chars p2_chars d1 d2 by auto
  have ok: "c \<noteq> CHR '','' \<and> \<not> isSpace c" if "c = CHR ''-'' \<or> c = CHR ''.'' \<or> isDigit c" for c
    using that digit_facts [of c] by (auto simp: isSpace_def)
  have nocomma: "CHR '','' \<notin> set ?n"
    using chars ok by blast
  have nospace: "\<forall>c \<in> set ?n. \<not> isSpace c"
    using chars ok by blast
  obtain c t where ct: "?d1 = c # t" using ne by (cases ?d1) auto
  then have c: "isDigit c" using d1 by (metis list.set_intros(1))
  have cm: "c \<noteq> CHR ''-''" using c digit_facts by blast
  have "skip_char (CHR ''-'') (p1 @ (c # t) @ p2 @ ?d2) = (c # t) @ p2 @ ?d2"
    using p1(2) cm by (auto simp: skip_char_def)
  then have "takeWhile isDigit (skip_char (CHR ''-'') (p1 @ (c # t) @ p2 @ ?d2)) \<noteq> []"
    using c by simp
  then have "starts_number ?n"
    unfolding starts_number_def ct .
  with eq nocomma nospace show ?thesis by blast
qed

lemma parseFloat_number:
  assumes "\<forall>c \<in> set ws. isSpace c" and "starts_number n" and "\<forall>c \<in> set n. \<not> isSpace c"
  shows "\<exists>x. parseFloat (ws @ n @ z) = Num x"
proof -
  from assms(2) obtain c t where ct: "skip_char (CHR ''-'') n = c # t" and c: "isDigit c"
    unfolding starts_number_def
    by (cases "skip_char (CHR ''-'') n") (auto split: if_splits)
  from ct have nne: "n \<noteq> []" by (auto simp: skip_char_def)
  then have "\<not> isSpace (hd n)" using assms(3) by (cases n) auto
  then have dw: "dropWhile isSpace (ws @ n @ z) = n @ z"
    using assms(1) nne by (cases n) (simp_all add: dropWhile_append3)
  have u: "(case n @ z of [] \<Rightarrow> [] | x # t' \<Rightarrow> if x = CHR ''-'' \<or> x = CHR ''+'' then t' else n @ z)
             = c # t @ z"
    using ct c digit_facts nne
    by (cases n) (auto simp: skip_char_def split: if_splits)
  have "takeWhile isDigit (c # t @ z) \<noteq> []" using c by simp
  then show ?thesis
    unfolding parseFloat_def Let_def dw u by simp
qed

lemma split_comma_append:
  "c \<notin> set a \<Longrightarrow> split c (a @ c # b) = a # split c b"
  by (induction a) (auto split: list.splits)

lemma split_no_comma: "c \<notin> set a \<Longrightarrow> split c a = [a]"
  by (induction a) (auto split: list.splits)

lemma trim_decomp:
  "\<exists>ws1 ws2. loc = ws1 @ trim loc @ ws2
      \<and> (\<forall>c \<in> set ws1. isSpace c) \<and> (\<forall>c \<in> set ws2. isSpace c)"
proof -
  let ?t0 = "dropWhile isSpace loc"
  let ?ws2 = "rev (takeWhile isSpace (rev ?t0))"
  have "trim loc @ ?ws2 = rev (takeWhile isSpace (rev ?t0) @ dropWhile isSpace (rev ?t0))"
    by (simp only: trim_def rev_append)
  also have "\<dots> = ?t0" by (simp only: takeWhile_dropWhile_id rev_rev_ident)
  finally have 2: "trim loc @ ?ws2 = ?t0" .
  have "takeWhile isSpace loc @ trim loc @ ?ws2 = takeWhile isSpace loc @ ?t0"
    by (simp only: 2)
  then have 1: "loc = takeWhile isSpace loc @ trim loc @ ?ws2"
    by (simp only: takeWhile_dropWhile_id)
  have 3: "\<forall>c \<in> set (takeWhile isSpace loc). isSpace c" by (auto dest: set_takeWhileD)
  have 4: "\<forall>c \<in> set ?ws2. isSpace c"
    by (auto dest: set_takeWhileD)
  from 1 3 4 show ?thesis by blast
qed

lemma parse_coordinates_matches:
  assumes "coordinate_pattern (trim loc)"
  shows "\<exists>a b. parse_coordinates loc = Inr \<lparr>lat = a, lng = b\<rparr>"
proof -
  from assms obtain t where np1: "number_pattern (trim loc) = Some (CHR '','' # t)"
    and np2: "number_pattern t = Some []"
    by (auto simp: coordinate_pattern_def split: option.splits list.splits)
  from number_pattern_decomp [OF np1] obtain n1 where n1: "trim loc = n1 @ CHR '','' # t"
    "CHR '','' \<notin> set n1" "starts_number n1" "\<forall>c \<in> set n1. \<not> isSpace c" by blast
  from number_pattern_decomp [OF np2] obtain n2 where n2: "t = n2"
    "CHR '','' \<notin> set n2" "starts_number n2" "\<forall>c \<in> set n2. \<not> isSpace c" by auto
  from trim_decomp [of loc] obtain ws1 ws2 where ws: "loc = ws1 @ trim loc @ ws2"
    "\<forall>c \<in> set ws1. isSpace c" "\<forall>c \<in> set ws2. isSpace c" by blast
  have loc: "loc = (ws1 @ n1) @ CHR '','' # (n2 @ ws2)"
    using ws(1) n1(1) n2(1) by simp
  have c1: "CHR '','' \<notin> set (ws1 @ n1)" using ws(2) n1(2) space_not_comma by auto
  have c2: "CHR '','' \<notin> set (n2 @ ws2)" using ws(3) n2(2) space_not_comma by auto
  have sp: "split (CHR '','') loc = [ws1 @ n1, n2 @ ws2]"
    by (subst loc) (simp only: split_comma_append [OF c1] split_no_comma [OF c2])
  obtain a where a: "parseFloat (ws1 @ n1) = Num a"
    using parseFloat_number [OF ws(2) n1(3) n1(4), of "[]"] by auto
  obtain b where b: "parseFloat (n2 @ ws2) = Num b"
    using parseFloat_number [of "[]" n2 ws2] n2(3) n2(4) by auto
  show ?thesis by (simp add: parse_coordinates_def sp a b)
qed

lemma invalid_coordinates_unreachable:
  "fst (resolve_location w loc) \<noteq> Inl InvalidCoordinates"
proof (cases "str_includes loc (CHR '','') \<and> coordinate_pattern (trim loc)")
  case True
  then show ?thesis
    using parse_coordinates_matches [of loc] by (auto simp: resolve_location_def)
next
  case False
  then show ?thesis
    by (auto simp: resolve_location_def geocode_address_def geocode_failure_def
        split: outcome.splits list.splits)
qed

section \<open>The summary record\<close>

lemma clamp_range:
  "math_max (Num lo) (math_min (Num hi) n) = Num x \<Longrightarrow> lo \<le> hi \<Longrightarrow> lo \<le> x \<and> x \<le> hi"
  by (auto simp: math_max_def math_min_def split: jsnum.splits)

lemma clamp_NaN: "math_max (Num lo) (math_min (Num hi) NaN) = NaN"
  by (simp add: math_max_def math_min_def)

lemma clamp_Num: "math_max (Num lo) (math_min (Num hi) (Num x)) = Num (max lo (min hi x))"
  by (simp add: math_max_def math_min_def)

lemma array_or_empty_non_array: "(\<forall>xs. v \<noteq> JArray xs) \<Longrightarrow> array_or_empty v = []"
  by (cases v) (simp_all add: array_or_empty_def)

lemma aiSummary_clamped_when_numeric:
  assumes "make_aiSummary w t analysis = Some a"
  shows "(get analysis ''rank_score'' = JNumber (Num x) \<longrightarrow>
            rank_score a = Num (max 0 (min 100 x)))
     \<and> (get analysis ''confidence'' = JNumber (Num y) \<longrightarrow>
            confidence a = Num (max 0 (min 1 y)))
     \<and> ((\<forall>xs. get analysis ''pros'' \<noteq> JArray xs) \<longrightarrow> pros a = [])
     \<and> ((\<forall>xs. get analysis ''cons'' \<noteq> JArray xs) \<longrightarrow> cons a = [])"
proof -
  from assms have r: "rank_score a
        = math_max (Num 0) (math_min (Num 100) (toNumber w (get analysis ''rank_score'')))"
    and c: "confidence a
        = math_max (Num 0) (math_min (Num 1) (toNumber w (get analysis ''confidence'')))"
    and p: "pros a = array_or_empty (get analysis ''pros'')"
    and n: "cons a = array_or_empty (get analysis ''cons'')"
    by (auto simp: make_aiSummary_def split: if_splits)
  show ?thesis
    unfolding r c p n
    by (simp add: toNumber_def clamp_Num array_or_empty_non_array)
qed

text \<open>
  C5 fails on the code: when the generator omits \<open>confidence\<close>, the record that is built
  and upserted has \<open>NaN\<close> for it, which is not within [0,1], and the restaurant is
  returned with that value. (Numbers are clamped, and \<open>pros\<close> and \<open>cons\<close> default to the
  empty list, as \<open>aiSummary_clamped_when_numeric\<close> shows.)
\<close>

theorem omitted_confidence_is_NaN:
  "make_aiSummary w t analysis_without_confidence = Some (NaN_summary t)
   \<and> UpsertSummary (NaN_summary now0)
        \<in> set (snd (process_place forgetful_world ''g'' (place_of ''B'')))
   \<and> map_option (\<lambda>r. map_option v_confidence (r_ai_summary r))
        (fst (process_place forgetful_world ''g'' (place_of ''B''))) = Some (Some NaN)"
proof -
  have 1: "make_aiSummary w t analysis_without_confidence = Some (NaN_summary t)" for w t
    by (simp add: make_aiSummary_def analysis_without_confidence_def nullish_def get_def
        toNumber_def math_max_def math_min_def array_or_empty_def NaN_summary_def)
  have 2: "process_place forgetful_world ''g'' (place_of ''B'')
     = (Some (make_restaurant (sample_row ''B'' 4 2 [long_review, short_review] now0)
                (Some (NaN_summary now0))),
        [SelectRestaurant ''B'', FetchDetails ''B'',
         UpsertRestaurant (sample_row ''B'' 4 2 [long_review, short_review] now0),
         SelectSummary ''B'', Summarize ''B'' [''Great food and friendly staff.''],
         UpsertSummary (NaN_summary now0)])"
    by (simp add: forgetful_world_def process_place_def get_restaurantData_def
        fetch_details_def make_restaurantData_def fresh_restaurant_def get_aiSummary_def
        generate_summary_def fresh_summary_def reviewTexts_def qualifies_def text_of_def
        Let_def 1 sample_defs)
  show ?thesis
    by (simp add: 1 2 make_restaurant_def view_def NaN_summary_def)
qed

text \<open>
  C9 fails on the code: the record built from the parsed output is the same with and
  without \<open>dishes_to_try\<close> and \<open>matching_menu_items\<close>; the two lists are not copied
  into it.
\<close>

theorem dishes_are_dropped:
  "make_aiSummary w t (JObject ((''dishes_to_try'', d) # (''matching_menu_items'', m) # kvs))
     = make_aiSummary w t (JObject kvs)"
  by (simp add: make_aiSummary_def nullish_def get_def)

end
